theory Spec2Isabelle
  imports Main "HOL-Library.Word" "HOL-Library.Sublist"
begin

unbundle bit_operations_syntax

section \<open>Name generator (services/name-generator)\<close>









section \<open>WebSocket connection manager (services/ws-manager)\<close>

text \<open>
  The manager keeps a counter \<^verbatim>\<open>nextId\<close> and a \<^verbatim>\<open>Map<number, WsClient>\<close>. A JavaScript
  Map iterates in insertion order and has unique keys: it is an association list here,
  whose keys are distinct in every state the manager builds. The socket of a client
  is represented by its \<^verbatim>\<open>ws.data\<close>; whether \<^verbatim>\<open>ws.send\<close> throws for a client is an
  input of the broadcast functions (\<open>sendThrows\<close>, by client id).
\<close>

record WsData =
  wd_id :: "nat option"
  wd_workspaceId :: string
  wd_userId :: "string option"

record WsClient =
  workspaceId :: string
  userId :: "string option"
  subscribedChannels :: "string set"
  recentMessages :: "int list"

record ws_manager =
  nextId :: nat
  clients :: "(nat \<times> WsClient) list"

text \<open>An event is a \<^verbatim>\<open>Record<string, unknown>\<close>; the manager reads \<^verbatim>\<open>event.type\<close> and
  \<^verbatim>\<open>event.data?.channel_id\<close> only, either of which may be missing.\<close>

record ws_event =
  ev_type :: "string option"
  ev_channel_id :: "string option"
  ev_payload :: string

definition RATE_LIMIT_MAX :: nat where
  "RATE_LIMIT_MAX = 30"

definition RATE_LIMIT_WINDOW_MS :: int where
  "RATE_LIMIT_WINDOW_MS = 10000"

text \<open>\<^verbatim>\<open>clients.set(id, client)\<close>, \<^verbatim>\<open>clients.get(id)\<close> and \<^verbatim>\<open>clients.delete(id)\<close>.\<close>

fun clients_set :: "nat \<Rightarrow> WsClient \<Rightarrow> (nat \<times> WsClient) list \<Rightarrow> (nat \<times> WsClient) list" where
  "clients_set k v [] = [(k, v)]"
| "clients_set k v ((k', v') # rest) =
     (if k' = k then (k, v) # rest else (k', v') # clients_set k v rest)"

definition clients_get :: "(nat \<times> WsClient) list \<Rightarrow> nat \<Rightarrow> WsClient option" where
  "clients_get cs k = map_of cs k"

definition clients_delete :: "nat \<Rightarrow> (nat \<times> WsClient) list \<Rightarrow> (nat \<times> WsClient) list" where
  "clients_delete k cs = filter (\<lambda>(k', v). k' \<noteq> k) cs"

definition acceptClient :: "WsData \<Rightarrow> ws_manager \<Rightarrow> (nat \<times> WsData) \<times> ws_manager" where
  "acceptClient wsdata st =
     (let ident = nextId st;
          wsdata' = wsdata\<lparr>wd_id := Some ident\<rparr>;
          client = \<lparr>workspaceId = wd_workspaceId wsdata', userId = wd_userId wsdata',
                    subscribedChannels = {}, recentMessages = []\<rparr>
      in ((ident, wsdata'),
          st\<lparr>nextId := nextId st + 1, clients := clients_set ident client (clients st)\<rparr>))"

text \<open>
  \<^verbatim>\<open>isRateLimited(ws)\<close> at clock reading \<open>now\<close> (\<^verbatim>\<open>Date.now()\<close>, milliseconds). The
  pruned list is stored in the client before the test, so it is kept on rejection too.
  The result is (rejected, new state).
\<close>

definition isRateLimited :: "int \<Rightarrow> WsData \<Rightarrow> ws_manager \<Rightarrow> bool \<times> ws_manager" where
  "isRateLimited now wsdata st =
     (case wd_id wsdata of
        None \<Rightarrow> (True, st)
      | Some ident \<Rightarrow>
          (case clients_get (clients st) ident of
             None \<Rightarrow> (True, st)
           | Some client \<Rightarrow>
               (let pruned = filter (\<lambda>ts. now - ts < RATE_LIMIT_WINDOW_MS) (recentMessages client)
                in if length pruned \<ge> RATE_LIMIT_MAX
                   then (True,
                         st\<lparr>clients := clients_set ident (client\<lparr>recentMessages := pruned\<rparr>)
                                          (clients st)\<rparr>)
                   else (False,
                         st\<lparr>clients := clients_set ident
                                          (client\<lparr>recentMessages := pruned @ [now]\<rparr>)
                                          (clients st)\<rparr>))))"

text \<open>
  The verdicts of successive calls of \<^verbatim>\<open>isRateLimited\<close> for one socket, one call per
  inbound frame, at the given clock readings; each frame is paired with its verdict.
\<close>

fun rateLimitedFrames ::
  "WsData \<Rightarrow> int list \<Rightarrow> ws_manager \<Rightarrow> (int \<times> bool) list \<times> ws_manager" where
  "rateLimitedFrames wsdata [] st = ([], st)"
| "rateLimitedFrames wsdata (now # later) st =
     (let (rejected, st1) = isRateLimited now wsdata st;
          (rest, st2) = rateLimitedFrames wsdata later st1
      in ((now, rejected) # rest, st2))"

definition disconnectClient :: "WsData \<Rightarrow> ws_manager \<Rightarrow> ws_manager" where
  "disconnectClient wsdata st =
     (case wd_id wsdata of
        None \<Rightarrow> st
      | Some ident \<Rightarrow> st\<lparr>clients := clients_delete ident (clients st)\<rparr>)"

definition subscribe :: "WsData \<Rightarrow> string list \<Rightarrow> ws_manager \<Rightarrow> ws_manager" where
  "subscribe wsdata channelIds st =
     (case wd_id wsdata of
        None \<Rightarrow> st
      | Some ident \<Rightarrow>
          (case clients_get (clients st) ident of
             None \<Rightarrow> st
           | Some client \<Rightarrow>
               st\<lparr>clients := clients_set ident
                    (client\<lparr>subscribedChannels := subscribedChannels client \<union> set channelIds\<rparr>)
                    (clients st)\<rparr>))"

definition unsubscribe :: "WsData \<Rightarrow> string list \<Rightarrow> ws_manager \<Rightarrow> ws_manager" where
  "unsubscribe wsdata channelIds st =
     (case wd_id wsdata of
        None \<Rightarrow> st
      | Some ident \<Rightarrow>
          (case clients_get (clients st) ident of
             None \<Rightarrow> st
           | Some client \<Rightarrow>
               st\<lparr>clients := clients_set ident
                    (client\<lparr>subscribedChannels := subscribedChannels client - set channelIds\<rparr>)
                    (clients st)\<rparr>))"

definition getClientCount :: "ws_manager \<Rightarrow> nat" where
  "getClientCount st = length (clients st)"

text \<open>
  The loop of \<^verbatim>\<open>broadcastToChannel\<close>: the ids whose \<^verbatim>\<open>send\<close> returned, and the ids
  pushed on \<^verbatim>\<open>dead\<close> because it threw.
\<close>

fun broadcastToChannel_loop ::
  "(nat \<Rightarrow> bool) \<Rightarrow> string \<Rightarrow> nat option \<Rightarrow> (nat \<times> WsClient) list \<Rightarrow> nat list \<times> nat list" where
  "broadcastToChannel_loop sendThrows channelId excludeClientId [] = ([], [])"
| "broadcastToChannel_loop sendThrows channelId excludeClientId ((ident, client) # rest) =
     (let (sent, dead) = broadcastToChannel_loop sendThrows channelId excludeClientId rest
      in if Some ident = excludeClientId then (sent, dead)
         else if channelId \<notin> subscribedChannels client then (sent, dead)
         else if sendThrows ident then (sent, ident # dead)
         else (ident # sent, dead))"

definition broadcastToChannel ::
  "(nat \<Rightarrow> bool) \<Rightarrow> string \<Rightarrow> ws_event \<Rightarrow> nat option \<Rightarrow> ws_manager \<Rightarrow> nat list \<times> ws_manager" where
  "broadcastToChannel sendThrows channelId event excludeClientId st =
     (let (sent, dead) = broadcastToChannel_loop sendThrows channelId excludeClientId (clients st)
      in (sent, st\<lparr>clients := fold clients_delete dead (clients st)\<rparr>))"

text \<open>
  The loop of \<^verbatim>\<open>broadcast\<close>. The condition \<^verbatim>\<open>channelId &&\<close> holds for a string that is
  present and not empty.
\<close>

fun broadcast_loop ::
  "(nat \<Rightarrow> bool) \<Rightarrow> ws_event \<Rightarrow> string option \<Rightarrow> (nat \<times> WsClient) list \<Rightarrow> nat list \<times> nat list" where
  "broadcast_loop sendThrows event wsId [] = ([], [])"
| "broadcast_loop sendThrows event wsId ((ident, client) # rest) =
     (let (sent, dead) = broadcast_loop sendThrows event wsId rest
      in if wsId \<noteq> None \<and> Some (workspaceId client) \<noteq> wsId then (sent, dead)
         else if ev_type event = Some ''new_message''
                 \<and> subscribedChannels client \<noteq> {}
                 \<and> (case ev_channel_id event of
                        None \<Rightarrow> False
                      | Some channelId \<Rightarrow>
                          channelId \<noteq> [] \<and> channelId \<notin> subscribedChannels client)
              then (sent, dead)
         else if sendThrows ident then (sent, ident # dead)
         else (ident # sent, dead))"

text \<open>\<^verbatim>\<open>broadcast(event, workspaceId)\<close>: the ids that were sent the event, and the new state.\<close>

definition broadcast ::
  "(nat \<Rightarrow> bool) \<Rightarrow> ws_event \<Rightarrow> string option \<Rightarrow> ws_manager \<Rightarrow> nat list \<times> ws_manager" where
  "broadcast sendThrows event wsId st =
     (let (sent, dead) = broadcast_loop sendThrows event wsId (clients st)
      in (sent, st\<lparr>clients := fold clients_delete dead (clients st)\<rparr>))"

text \<open>
  The keys of the client map are distinct and below \<^verbatim>\<open>nextId\<close>: this holds when the module
  is loaded and every function of the manager keeps it.
\<close>

definition ws_wf :: "ws_manager \<Rightarrow> bool" where
  "ws_wf st \<longleftrightarrow>
     distinct (map fst (clients st)) \<and> (\<forall>k\<in>fst ` set (clients st). k < nextId st)"

definition ws_initial :: ws_manager where
  "ws_initial = \<lparr>nextId = 1, clients = []\<rparr>"

section \<open>The store (db/schema, db/index)\<close>

text \<open>
  The tables of the SQLite store, one record per row, rows in rowid order. Columns
  declared \<^verbatim>\<open>TEXT\<close> without \<^verbatim>\<open>NOT NULL\<close> are options. Timestamps are written by
  \<^verbatim>\<open>new Date().toISOString()\<close>: fixed-width UTC strings, whose order as text is the order
  of the instants; the model keeps the instant, in milliseconds. The column
  \<^verbatim>\<open>messages.mentions\<close> holds the JSON text of a list of names; the model keeps the list.
\<close>

type_synonym iso_time = nat

record User =
  u_id :: string
  u_name :: string
  u_type :: string
  u_createdAt :: iso_time
  u_displayName :: "string option"
  u_about :: "string option"
  u_agentInstructions :: "string option"
  u_email :: "string option"
  u_avatarUrl :: "string option"

record Workspace =
  w_id :: string
  w_name :: string
  w_slug :: string
  w_type :: string
  w_description :: "string option"
  w_onboardingPrompt :: "string option"
  w_humanWelcome :: "string option"
  w_createdBy :: string
  w_createdAt :: iso_time
  w_updatedAt :: "iso_time option"

record WorkspaceMember =
  wm_workspaceId :: string
  wm_userId :: string
  wm_role :: string
  wm_joinedAt :: iso_time

record Agent =
  a_id :: string
  a_agentName :: string
  a_agentType :: string
  a_projectPath :: string
  a_projectName :: string
  a_status :: string
  a_description :: "string option"
  a_personality :: "string option"
  a_currentTask :: "string option"
  a_gender :: "string option"
  a_serverUrl :: "string option"
  a_providerSessionId :: "string option"
  a_workspaceId :: "string option"

record AgentSession =
  s_id :: string
  s_agentId :: string
  s_pid :: int
  s_tty :: string
  s_isActive :: bool
  s_startedAt :: iso_time
  s_endedAt :: "iso_time option"
  s_lastHeartbeat :: iso_time

record Channel =
  ch_id :: string
  ch_name :: string
  ch_type :: string
  ch_topic :: "string option"
  ch_projectPath :: "string option"
  ch_createdBy :: string
  ch_createdAt :: iso_time
  ch_isArchived :: bool
  ch_archivedAt :: "iso_time option"
  ch_workspaceId :: "string option"

record Message =
  m_id :: string
  m_channelId :: string
  m_senderId :: string
  m_content :: string
  m_mentions :: "string list option"
  m_parentId :: "string option"
  m_isPinned :: bool
  m_pinnedAt :: "iso_time option"
  m_pinnedBy :: "string option"
  m_editedAt :: "iso_time option"
  m_createdAt :: iso_time

text \<open>
  The store. The four flags say whether a column that \<^verbatim>\<open>runMigrations\<close> may have to add
  is present; while a column is absent its field is \<open>None\<close> in every row.
\<close>

record db =
  users :: "User list"
  workspaces :: "Workspace list"
  workspaceMembers :: "WorkspaceMember list"
  agents :: "Agent list"
  sessions :: "AgentSession list"
  channels :: "Channel list"
  messages :: "Message list"
  col_channels_workspace_id :: bool
  col_agents_workspace_id :: bool
  col_users_email :: bool
  col_users_avatar_url :: bool

text \<open>A handler answers with a status and a body, or with \<^verbatim>\<open>{detail}\<close> and an error status.\<close>

type_synonym http_error = "nat \<times> string"

text \<open>\<^verbatim>\<open>db.select().from(t).where(p).get()\<close>: the first row that satisfies \<open>p\<close>, if any.\<close>

definition select_get :: "('r \<Rightarrow> bool) \<Rightarrow> 'r list \<Rightarrow> 'r option" where
  "select_get p rows = find p rows"

text \<open>A string used as a condition is true when it is present and not empty.\<close>

definition truthy :: "string option \<Rightarrow> bool" where
  "truthy s = (case s of None \<Rightarrow> False | Some v \<Rightarrow> v \<noteq> [])"

section \<open>Liveness sweep (routes/agents)\<close>

text \<open>
  \<^verbatim>\<open>isPidAlive\<close> probes the process with signal 0. The operating system is a parameter:
  \<open>killSucceeds pid\<close> says that \<^verbatim>\<open>process.kill(pid, 0)\<close> returns without throwing.
\<close>

definition isPidAlive :: "(int \<Rightarrow> bool) \<Rightarrow> int \<Rightarrow> bool" where
  "isPidAlive killSucceeds pid = (if killSucceeds pid then True else False)"

text \<open>
  \<^verbatim>\<open>select().from(sessions).where(eq(sessions.agentId, id)).orderBy(asc(sessions.startedAt))
  .limit(1).get()\<close>: the rows of the agent in ascending order of \<^verbatim>\<open>started_at\<close>, the
  first of them. Among rows with the same \<^verbatim>\<open>started_at\<close> SQL leaves the choice to the
  engine; here it is the first in table order.
\<close>

definition firstSessionByStartedAt :: "db \<Rightarrow> string \<Rightarrow> AgentSession option" where
  "firstSessionByStartedAt d agentId =
     (case sort_key s_startedAt (filter (\<lambda>s. s_agentId s = agentId) (sessions d)) of
        [] \<Rightarrow> None
      | s # rest \<Rightarrow> Some s)"

text \<open>
  \<^verbatim>\<open>computeGhost(agent, opencodeSessions)\<close>. \<open>fetchSessions url\<close> is the set of session
  ids that \<^verbatim>\<open>fetchOpencodeSessions(url)\<close> resolves to (empty when the server cannot be
  reached). The result is the verdict and the per-sweep cache of session lists.
\<close>

definition computeGhost ::
  "(string \<Rightarrow> string set) \<Rightarrow> (int \<Rightarrow> bool) \<Rightarrow> db \<Rightarrow> Agent \<Rightarrow> (string \<rightharpoonup> string set)
     \<Rightarrow> bool \<times> (string \<rightharpoonup> string set)" where
  "computeGhost fetchSessions killSucceeds d agent opencodeSessions =
     (if a_agentType agent = ''system'' then (False, opencodeSessions)
      else if truthy (a_serverUrl agent) \<and> truthy (a_providerSessionId agent) then
        (let url = the (a_serverUrl agent); psid = the (a_providerSessionId agent)
         in case opencodeSessions url of
              None \<Rightarrow>
                (let fetched = fetchSessions url
                 in (psid \<notin> fetched, opencodeSessions(url \<mapsto> fetched)))
            | Some known \<Rightarrow> (psid \<notin> known, opencodeSessions))
      else
        (case firstSessionByStartedAt d (a_id agent) of
           None \<Rightarrow> (True, opencodeSessions)
         | Some activeSession \<Rightarrow>
             (\<not> isPidAlive killSucceeds (s_pid activeSession), opencodeSessions)))"

text \<open>\<^verbatim>\<open>refreshGhostCache\<close>: the new ghost cache, one entry per agent row.\<close>

fun refreshGhostCache_loop ::
  "(string \<Rightarrow> string set) \<Rightarrow> (int \<Rightarrow> bool) \<Rightarrow> db \<Rightarrow> Agent list \<Rightarrow> (string \<rightharpoonup> string set)
     \<Rightarrow> (string \<rightharpoonup> bool) \<Rightarrow> (string \<rightharpoonup> bool)" where
  "refreshGhostCache_loop fetchSessions killSucceeds d [] opencodeSessions newCache = newCache"
| "refreshGhostCache_loop fetchSessions killSucceeds d (agent # rest) opencodeSessions newCache =
     (let (isGhost, opencodeSessions') =
            computeGhost fetchSessions killSucceeds d agent opencodeSessions
      in refreshGhostCache_loop fetchSessions killSucceeds d rest opencodeSessions'
           (newCache(a_id agent \<mapsto> isGhost)))"

definition refreshGhostCache ::
  "(string \<Rightarrow> string set) \<Rightarrow> (int \<Rightarrow> bool) \<Rightarrow> db \<Rightarrow> (string \<rightharpoonup> bool)" where
  "refreshGhostCache fetchSessions killSucceeds d =
     refreshGhostCache_loop fetchSessions killSucceeds d (agents d) Map.empty Map.empty"

text \<open>
  The classification in the words of the specification, for comparison with
  \<open>computeGhost\<close>: an agent without invocation credentials is a ghost iff it has no
  active session, or the pid recorded in its most recent session is not alive.
\<close>

definition mostRecentSession :: "db \<Rightarrow> string \<Rightarrow> AgentSession option" where
  "mostRecentSession d agentId =
     (case rev (sort_key s_startedAt (filter (\<lambda>s. s_agentId s = agentId) (sessions d))) of
        [] \<Rightarrow> None
      | s # rest \<Rightarrow> Some s)"

definition ghostBySpec :: "(int \<Rightarrow> bool) \<Rightarrow> db \<Rightarrow> Agent \<Rightarrow> bool" where
  "ghostBySpec killSucceeds d agent =
     (if list_ex (\<lambda>s. s_agentId s = a_id agent \<and> s_isActive s) (sessions d)
      then (case mostRecentSession d (a_id agent) of
              None \<Rightarrow> True
            | Some s \<Rightarrow> (if killSucceeds (s_pid s) then False else True))
      else True)"

text \<open>
  A store in which agent \<^verbatim>\<open>plucky-sparrow\<close> (no invocation credentials) has an ended
  session of a process that is gone and, started later, an active session of a process
  that is running (pid 200).
\<close>

definition ghost_example_agent :: Agent where
  "ghost_example_agent =
     \<lparr>a_id = ''agent-1'', a_agentName = ''plucky-sparrow'', a_agentType = ''opencode'',
      a_projectPath = ''/work/demo'', a_projectName = ''demo'', a_status = ''online'',
      a_description = None, a_personality = None, a_currentTask = None, a_gender = None,
      a_serverUrl = None, a_providerSessionId = None, a_workspaceId = None\<rparr>"

definition ghost_example_db :: db where
  "ghost_example_db =
     \<lparr>users = [], workspaces = [], workspaceMembers = [], agents = [ghost_example_agent],
      sessions =
        [\<lparr>s_id = ''session-1'', s_agentId = ''agent-1'', s_pid = 100, s_tty = ''ttys001'',
          s_isActive = False, s_startedAt = 1000, s_endedAt = Some 2000,
          s_lastHeartbeat = 1500\<rparr>,
         \<lparr>s_id = ''session-2'', s_agentId = ''agent-1'', s_pid = 200, s_tty = ''ttys002'',
          s_isActive = True, s_startedAt = 3000, s_endedAt = None,
          s_lastHeartbeat = 3500\<rparr>],
      channels = [], messages = [],
      col_channels_workspace_id = True, col_agents_workspace_id = True,
      col_users_email = True, col_users_avatar_url = True\<rparr>"

definition ghost_example_kill :: "int \<Rightarrow> bool" where
  "ghost_example_kill pid = (pid = 200)"

section \<open>Message endpoints (routes/messages)\<close>

record MessageResponse =
  r_id :: string
  r_channel_id :: string
  r_sender_id :: string
  r_sender_name :: string
  r_sender_type :: string
  r_content :: string
  r_mentions :: "string list option"
  r_parent_id :: "string option"
  r_created_at :: iso_time

text \<open>
  The query builder of Drizzle, as far as the handler uses it. A builder holds one
  \<^verbatim>\<open>WHERE\<close> condition in its configuration and \<^verbatim>\<open>where(c)\<close> assigns it, also on a
  builder made dynamic with \<^verbatim>\<open>$dynamic()\<close>: a second call replaces the condition of the
  first (the repository's regression tests name this the ``Drizzle .where() chaining
  bug'').
\<close>

record 'r select_query =
  q_from :: "'r list"
  q_where :: "('r \<Rightarrow> bool) option"

definition qb_where :: "'r select_query \<Rightarrow> ('r \<Rightarrow> bool) \<Rightarrow> 'r select_query" where
  "qb_where q cond = q\<lparr>q_where := Some cond\<rparr>"

definition qb_rows :: "'r select_query \<Rightarrow> 'r list" where
  "qb_rows q = (case q_where q of None \<Rightarrow> q_from q | Some cond \<Rightarrow> filter cond (q_from q))"

text \<open>
  \<^verbatim>\<open>ORDER BY key DESC\<close>. SQL leaves the order of rows with equal keys to the engine;
  here they stay in table order.
\<close>

definition orderByDesc :: "('r \<Rightarrow> nat) \<Rightarrow> 'r list \<Rightarrow> 'r list" where
  "orderByDesc key rows = rev (sort_key key (rev rows))"

text \<open>\<^verbatim>\<open>LIMIT n\<close>; SQLite takes a negative limit as no limit.\<close>

definition sql_limit :: "int \<Rightarrow> 'r list \<Rightarrow> 'r list" where
  "sql_limit n rows = (if n < 0 then rows else take (nat n) rows)"

text \<open>
  \<^verbatim>\<open>Math.min(parseInt(c.req.query("limit") ?? "50", 10) || 50, 100)\<close>; the argument is the
  value of \<^verbatim>\<open>parseInt\<close>, \<open>None\<close> for \<^verbatim>\<open>NaN\<close>.
\<close>

definition limitOf :: "int option \<Rightarrow> int" where
  "limitOf parsed = (case parsed of None \<Rightarrow> 50 | Some n \<Rightarrow> min (if n = 0 then 50 else n) 100)"

text \<open>\<^verbatim>\<open>messages INNER JOIN users ON messages.sender_id = users.id\<close>.\<close>

definition messagesJoinUsers :: "db \<Rightarrow> (Message \<times> User) list" where
  "messagesJoinUsers d =
     concat (map (\<lambda>m. map (\<lambda>u. (m, u)) (filter (\<lambda>u. u_id u = m_senderId m) (users d)))
                 (messages d))"

definition toMessageResponse :: "Message \<times> User \<Rightarrow> MessageResponse" where
  "toMessageResponse row =
     (case row of (m, u) \<Rightarrow>
        \<lparr>r_id = m_id m, r_channel_id = m_channelId m, r_sender_id = m_senderId m,
         r_sender_name = (case u_displayName u of Some n \<Rightarrow> n | None \<Rightarrow> u_name u),
         r_sender_type = u_type u, r_content = m_content m, r_mentions = m_mentions m,
         r_parent_id = m_parentId m, r_created_at = m_createdAt m\<rparr>)"

text \<open>\<^verbatim>\<open>GET /channels/:channelId/messages?limit=..&before=..\<close>\<close>

definition getMessages ::
  "string \<Rightarrow> int option \<Rightarrow> string option \<Rightarrow> db \<Rightarrow> http_error + MessageResponse list" where
  "getMessages channelId limitParam beforeParam d =
     (let limit = limitOf limitParam
      in case select_get (\<lambda>c. ch_id c = channelId) (channels d) of
           None \<Rightarrow> Inl (404, ''Channel not found'')
         | Some channel \<Rightarrow>
             (let query0 = qb_where \<lparr>q_from = messagesJoinUsers d, q_where = None\<rparr>
                             (\<lambda>(m, u). m_channelId m = channelId);
                  query =
                    (if truthy beforeParam then
                       (case select_get (\<lambda>m. Some (m_id m) = beforeParam) (messages d) of
                          None \<Rightarrow> query0
                        | Some beforeMsg \<Rightarrow>
                            qb_where query0 (\<lambda>(m, u). m_createdAt m < m_createdAt beforeMsg))
                     else query0);
                  rows = sql_limit limit (orderByDesc (\<lambda>(m, u). m_createdAt m) (qb_rows query))
              in Inr (map toMessageResponse rows)))"

text \<open>
  The body of a POST after \<^verbatim>\<open>MessageCreateSchema.safeParse\<close> (the schema is declared in
  \<^verbatim>\<open>types\<close>, outside the sources at hand): \<open>Inl\<close> the message of the validation error,
  \<open>Inr\<close> the parsed data.
\<close>

record MessageCreate =
  mc_content :: string
  mc_mentions :: "string list option"

text \<open>
  \<^verbatim>\<open>db.insert(messages).values(..).run()\<close>: the primary key must be new, the channel and
  the sender must exist (foreign keys are on); otherwise the statement throws and stores
  nothing.
\<close>

definition insertMessage :: "Message \<Rightarrow> db \<Rightarrow> db option" where
  "insertMessage m d =
     (if list_ex (\<lambda>m'. m_id m' = m_id m) (messages d) then None
      else if \<not> list_ex (\<lambda>c. ch_id c = m_channelId m) (channels d) then None
      else if \<not> list_ex (\<lambda>u. u_id u = m_senderId m) (users d) then None
      else Some (d\<lparr>messages := messages d @ [m]\<rparr>))"

text \<open>
  \<^verbatim>\<open>POST /channels/:channelId/messages\<close>. \<open>msgId\<close> is the value of
  \<^verbatim>\<open>crypto.randomUUID()\<close> and \<open>now\<close> the clock. An exception that escapes the handler is
  answered with status 500 by the framework. The broadcast to the WebSocket clients
  does not touch the store.
\<close>

definition postMessage ::
  "string \<Rightarrow> iso_time \<Rightarrow> string \<Rightarrow> string + MessageCreate \<Rightarrow> db
     \<Rightarrow> (http_error + nat \<times> MessageResponse) \<times> db" where
  "postMessage msgId now channelId parsed d =
     (case parsed of
        Inl message \<Rightarrow> (Inl (400, message), d)
      | Inr data \<Rightarrow>
          (case select_get (\<lambda>c. ch_id c = channelId) (channels d) of
             None \<Rightarrow> (Inl (404, ''Channel not found''), d)
           | Some channel \<Rightarrow>
               (case select_get (\<lambda>u. u_type u = ''human'') (users d) of
                  None \<Rightarrow> (Inl (400, ''No user onboarded''), d)
                | Some human \<Rightarrow>
                    (case insertMessage
                            \<lparr>m_id = msgId, m_channelId = channelId, m_senderId = u_id human,
                             m_content = mc_content data, m_mentions = mc_mentions data,
                             m_parentId = None, m_isPinned = False, m_pinnedAt = None,
                             m_pinnedBy = None, m_editedAt = None, m_createdAt = now\<rparr> d of
                       None \<Rightarrow> (Inl (500, ''Internal Server Error''), d)
                     | Some d' \<Rightarrow>
                         (Inr (201,
                               \<lparr>r_id = msgId, r_channel_id = channelId,
                                r_sender_id = u_id human,
                                r_sender_name =
                                  (case u_displayName human of Some n \<Rightarrow> n
                                   | None \<Rightarrow> u_name human),
                                r_sender_type = ''human'', r_content = mc_content data,
                                r_mentions = mc_mentions data, r_parent_id = None,
                                r_created_at = now\<rparr>),
                          d')))))"

section \<open>User onboarding (routes/users)\<close>

definition CREATOR_NAME :: string where
  "CREATOR_NAME = ''the_creator''"

record UserResponse =
  ur_id :: string
  ur_name :: string
  ur_type :: string
  ur_created_at :: iso_time
  ur_display_name :: "string option"
  ur_about :: "string option"
  ur_agent_instructions :: "string option"

definition userToResponse :: "User \<Rightarrow> UserResponse" where
  "userToResponse u =
     \<lparr>ur_id = u_id u, ur_name = u_name u, ur_type = u_type u, ur_created_at = u_createdAt u,
      ur_display_name = u_displayName u, ur_about = u_about u,
      ur_agent_instructions = u_agentInstructions u\<rparr>"

text \<open>
  The welcome text, held as the bytes of its UTF-8 encoding: the dash after the name is
  three bytes. \<^verbatim>\<open>about.slice(0, 200)\<close> keeps the first 200 UTF-16 units of the text,
  which \<open>take 200\<close> does for an \<^verbatim>\<open>about\<close> written in ASCII.
\<close>

definition welcomeContent :: "string \<Rightarrow> string option \<Rightarrow> string" where
  "welcomeContent displayName about =
     (let aboutLine =
            (if truthy about
             then '' They say: *'' @ [CHR 0x22] @ take 200 (the about) @ [CHR 0x22] @ ''*''
             else '''')
      in ''Everyone, meet **'' @ displayName @ ''** '' @ [CHR 0xE2, CHR 0x80, CHR 0x94]
         @ '' they're running the show around here.'' @ aboutLine @ [CHR 0x0A, CHR 0x0A]
         @ ''Be cool. Be yourself. Make a good impression.'')"

text \<open>
  \<^verbatim>\<open>postCreatorWelcome\<close>; the caller wraps it in \<^verbatim>\<open>try/catch\<close>, so a failed insert
  leaves the store as it was.
\<close>

definition postCreatorWelcome :: "string \<Rightarrow> iso_time \<Rightarrow> string \<Rightarrow> string option \<Rightarrow> db \<Rightarrow> db" where
  "postCreatorWelcome msgId now displayName about d =
     (case select_get (\<lambda>u. u_name u = CREATOR_NAME) (users d) of
        None \<Rightarrow> d
      | Some creator \<Rightarrow>
          (case select_get (\<lambda>c. ch_name c = ''#general'') (channels d) of
             None \<Rightarrow> d
           | Some general \<Rightarrow>
               (case insertMessage
                       \<lparr>m_id = msgId, m_channelId = ch_id general, m_senderId = u_id creator,
                        m_content = welcomeContent displayName about, m_mentions = None,
                        m_parentId = None, m_isPinned = False, m_pinnedAt = None,
                        m_pinnedBy = None, m_editedAt = None, m_createdAt = now\<rparr> d of
                  None \<Rightarrow> d
                | Some d' \<Rightarrow> d')))"

text \<open>
  The body after \<^verbatim>\<open>UserOnboardSchema.safeParse\<close> (the schema is declared in
  \<^verbatim>\<open>types\<close>, outside the sources at hand).
\<close>

record UserOnboard =
  uo_name :: string
  uo_display_name :: "string option"
  uo_about :: "string option"
  uo_agent_instructions :: "string option"

text \<open>\<^verbatim>\<open>db.update(users).set({..}).where(eq(users.id, id)).run()\<close>\<close>

definition updateUserProfile :: "string \<Rightarrow> UserOnboard \<Rightarrow> db \<Rightarrow> db" where
  "updateUserProfile ident data d =
     d\<lparr>users := map (\<lambda>u. if u_id u = ident
                            then u\<lparr>u_name := uo_name data,
                                   u_displayName := uo_display_name data,
                                   u_about := uo_about data,
                                   u_agentInstructions := uo_agent_instructions data\<rparr>
                            else u) (users d)\<rparr>"

text \<open>\<^verbatim>\<open>db.insert(users).values(..).run()\<close>: throws when the primary key exists.\<close>

definition insertUser :: "User \<Rightarrow> db \<Rightarrow> db option" where
  "insertUser u d =
     (if list_ex (\<lambda>u'. u_id u' = u_id u) (users d) then None
      else Some (d\<lparr>users := users d @ [u]\<rparr>))"

text \<open>
  \<^verbatim>\<open>POST /users/onboard\<close>. \<open>newUserId\<close> and \<open>msgId\<close> are the values of
  \<^verbatim>\<open>crypto.randomUUID()\<close> in the handler and in \<^verbatim>\<open>postCreatorWelcome\<close>.
\<close>

definition onboard ::
  "string \<Rightarrow> string \<Rightarrow> iso_time \<Rightarrow> string + UserOnboard \<Rightarrow> db
     \<Rightarrow> (http_error + nat \<times> UserResponse) \<times> db" where
  "onboard newUserId msgId now parsed d =
     (case parsed of
        Inl message \<Rightarrow> (Inl (400, message), d)
      | Inr data \<Rightarrow>
          (case select_get (\<lambda>u. u_type u = ''human'') (users d) of
             Some existing \<Rightarrow>
               (let d' = updateUserProfile (u_id existing) data d
                in case select_get (\<lambda>u. u_id u = u_id existing) (users d') of
                     None \<Rightarrow> (Inl (500, ''Internal Server Error''), d')
                   | Some updated \<Rightarrow> (Inr (201, userToResponse updated), d'))
           | None \<Rightarrow>
               (case insertUser
                       \<lparr>u_id = newUserId, u_name = uo_name data, u_type = ''human'',
                        u_createdAt = now, u_displayName = uo_display_name data,
                        u_about = uo_about data,
                        u_agentInstructions = uo_agent_instructions data,
                        u_email = None, u_avatarUrl = None\<rparr> d of
                  None \<Rightarrow> (Inl (500, ''Internal Server Error''), d)
                | Some d1 \<Rightarrow>
                    (let welcomeName =
                           (case uo_display_name data of Some n \<Rightarrow> n | None \<Rightarrow> uo_name data);
                         d2 = postCreatorWelcome msgId now welcomeName (uo_about data) d1
                     in case select_get (\<lambda>u. u_id u = newUserId) (users d2) of
                          None \<Rightarrow> (Inl (500, ''Internal Server Error''), d2)
                        | Some user \<Rightarrow> (Inr (201, userToResponse user), d2)))))"

definition humanCount :: "db \<Rightarrow> nat" where
  "humanCount d = length (filter (\<lambda>u. u_type u = ''human'') (users d))"

section \<open>Migrations (db/index)\<close>

definition DEFAULT_WORKSPACE_ID :: string where
  "DEFAULT_WORKSPACE_ID = ''00000000-0000-0000-0000-000000000000''"

definition DEFAULT_WORKSPACE_SLUG :: string where
  "DEFAULT_WORKSPACE_SLUG = ''default''"

text \<open>
  \<^verbatim>\<open>ALTER TABLE t ADD COLUMN c TEXT\<close>: the column is present afterwards and \<^verbatim>\<open>NULL\<close> in
  every existing row.
\<close>

definition addColumn_channels_workspace_id :: "db \<Rightarrow> db" where
  "addColumn_channels_workspace_id d =
     d\<lparr>col_channels_workspace_id := True,
       channels := map (\<lambda>c. c\<lparr>ch_workspaceId := None\<rparr>) (channels d)\<rparr>"

definition addColumn_agents_workspace_id :: "db \<Rightarrow> db" where
  "addColumn_agents_workspace_id d =
     d\<lparr>col_agents_workspace_id := True,
       agents := map (\<lambda>a. a\<lparr>a_workspaceId := None\<rparr>) (agents d)\<rparr>"

definition addColumn_users_email :: "db \<Rightarrow> db" where
  "addColumn_users_email d =
     d\<lparr>col_users_email := True, users := map (\<lambda>u. u\<lparr>u_email := None\<rparr>) (users d)\<rparr>"

definition addColumn_users_avatar_url :: "db \<Rightarrow> db" where
  "addColumn_users_avatar_url d =
     d\<lparr>col_users_avatar_url := True, users := map (\<lambda>u. u\<lparr>u_avatarUrl := None\<rparr>) (users d)\<rparr>"

text \<open>
  \<^verbatim>\<open>INSERT OR IGNORE INTO workspaces\<close>: the row is skipped when it would break the
  primary key or one of the \<^verbatim>\<open>UNIQUE\<close> constraints on \<^verbatim>\<open>name\<close> and \<^verbatim>\<open>slug\<close>.
\<close>

definition insertOrIgnoreWorkspace :: "Workspace \<Rightarrow> db \<Rightarrow> db" where
  "insertOrIgnoreWorkspace w d =
     (if list_ex (\<lambda>w'. w_id w' = w_id w \<or> w_name w' = w_name w \<or> w_slug w' = w_slug w)
           (workspaces d)
      then d
      else d\<lparr>workspaces := workspaces d @ [w]\<rparr>)"

text \<open>The row that \<^verbatim>\<open>ensureDefaultWorkspace\<close> inserts.\<close>

definition defaultWorkspaceRow :: "iso_time \<Rightarrow> Workspace" where
  "defaultWorkspaceRow now =
     \<lparr>w_id = DEFAULT_WORKSPACE_ID, w_name = ''Default'', w_slug = DEFAULT_WORKSPACE_SLUG,
      w_type = ''personal'', w_description = Some ''Auto-created default workspace'',
      w_onboardingPrompt = None, w_humanWelcome = None, w_createdBy = ''system'',
      w_createdAt = now, w_updatedAt = None\<rparr>"

text \<open>
  \<^verbatim>\<open>ensureDefaultWorkspace\<close>. The two \<^verbatim>\<open>UPDATE\<close> statements name the column
  \<^verbatim>\<open>workspace_id\<close>, which must exist, and write a reference to the default workspace,
  which must exist when a row is changed (foreign keys are on); a statement that fails
  throws and changes nothing.
\<close>

definition ensureDefaultWorkspace :: "iso_time \<Rightarrow> db \<Rightarrow> string + db" where
  "ensureDefaultWorkspace now d =
     (let d1 = insertOrIgnoreWorkspace (defaultWorkspaceRow now) d;
          defaultExists = list_ex (\<lambda>w. w_id w = DEFAULT_WORKSPACE_ID) (workspaces d1)
      in if \<not> col_channels_workspace_id d1 then Inl ''no such column: workspace_id''
         else if list_ex (\<lambda>c. ch_workspaceId c = None) (channels d1) \<and> \<not> defaultExists
         then Inl ''FOREIGN KEY constraint failed''
         else
           (let d2 = d1\<lparr>channels :=
                          map (\<lambda>c. if ch_workspaceId c = None
                                    then c\<lparr>ch_workspaceId := Some DEFAULT_WORKSPACE_ID\<rparr>
                                    else c) (channels d1)\<rparr>
            in if \<not> col_agents_workspace_id d2 then Inl ''no such column: workspace_id''
               else if list_ex (\<lambda>a. a_workspaceId a = None) (agents d2) \<and> \<not> defaultExists
               then Inl ''FOREIGN KEY constraint failed''
               else Inr (d2\<lparr>agents :=
                               map (\<lambda>a. if a_workspaceId a = None
                                         then a\<lparr>a_workspaceId := Some DEFAULT_WORKSPACE_ID\<rparr>
                                         else a) (agents d2)\<rparr>)))"

text \<open>
  The migrations of \<^verbatim>\<open>runMigrations\<close>, each guarded by \<^verbatim>\<open>hasColumn\<close>; creating an
  index changes no row.
\<close>

definition migration1 :: "db \<Rightarrow> db" where
  "migration1 d =
     (if \<not> col_channels_workspace_id d then addColumn_channels_workspace_id d else d)"

definition migration2 :: "db \<Rightarrow> db" where
  "migration2 d =
     (if \<not> col_agents_workspace_id d then addColumn_agents_workspace_id d else d)"

definition migration3 :: "db \<Rightarrow> db" where
  "migration3 d =
     (let d1 = (if \<not> col_users_email d then addColumn_users_email d else d)
      in if \<not> col_users_avatar_url d1 then addColumn_users_avatar_url d1 else d1)"

definition runMigrations :: "iso_time \<Rightarrow> db \<Rightarrow> string + db" where
  "runMigrations now d =
     (let d1 = migration1 d;
          d2 = migration2 d1;
          d3 = migration3 d2
      in ensureDefaultWorkspace now d3)"

text \<open>
  A store written before workspaces existed, as \<^verbatim>\<open>createTables\<close> leaves it: the new
  tables are there and empty, the channel and agent tables have no \<^verbatim>\<open>workspace_id\<close>
  column; one human user, one agent, one channel.
\<close>

definition legacy_example_db :: db where
  "legacy_example_db =
     \<lparr>users =
        [\<lparr>u_id = ''user-1'', u_name = ''boss'', u_type = ''human'', u_createdAt = 1000,
          u_displayName = Some ''the Boss'', u_about = None, u_agentInstructions = None,
          u_email = None, u_avatarUrl = None\<rparr>,
         \<lparr>u_id = ''agent-1'', u_name = ''plucky-sparrow'', u_type = ''agent'',
          u_createdAt = 1100, u_displayName = None, u_about = None,
          u_agentInstructions = None, u_email = None, u_avatarUrl = None\<rparr>],
      workspaces = [], workspaceMembers = [],
      agents =
        [\<lparr>a_id = ''agent-1'', a_agentName = ''plucky-sparrow'', a_agentType = ''opencode'',
          a_projectPath = ''/work/demo'', a_projectName = ''demo'', a_status = ''offline'',
          a_description = None, a_personality = None, a_currentTask = None,
          a_gender = None, a_serverUrl = None, a_providerSessionId = None,
          a_workspaceId = None\<rparr>],
      sessions = [],
      channels =
        [\<lparr>ch_id = ''chan-general'', ch_name = ''#general'', ch_type = ''general'',
          ch_topic = None, ch_projectPath = None, ch_createdBy = ''system'',
          ch_createdAt = 900, ch_isArchived = False, ch_archivedAt = None,
          ch_workspaceId = None\<rparr>],
      messages = [],
      col_channels_workspace_id = False, col_agents_workspace_id = False,
      col_users_email = False, col_users_avatar_url = False\<rparr>"

section \<open>Search endpoint\<close>









section \<open>Example states\<close>

definition sendNeverThrows :: "nat \<Rightarrow> bool" where
  "sendNeverThrows ident = False"

text \<open>
  Two connections: client 1 resolved to workspace \<^verbatim>\<open>ws-1\<close> and subscribed to
  \<^verbatim>\<open>chan-general\<close>, client 2 resolved to workspace \<^verbatim>\<open>ws-2\<close> and subscribed to the same
  channel id. The channel \<^verbatim>\<open>chan-general\<close> is a row of workspace \<^verbatim>\<open>ws-1\<close>.
\<close>

definition two_workspaces_ws :: ws_manager where
  "two_workspaces_ws =
     \<lparr>nextId = 3,
      clients =
        [(1, \<lparr>workspaceId = ''ws-1'', userId = Some ''user-1'',
              subscribedChannels = {''chan-general''}, recentMessages = []\<rparr>),
         (2, \<lparr>workspaceId = ''ws-2'', userId = Some ''user-2'',
              subscribedChannels = {''chan-general''}, recentMessages = []\<rparr>)]\<rparr>"

definition general_channel :: Channel where
  "general_channel =
     \<lparr>ch_id = ''chan-general'', ch_name = ''#general'', ch_type = ''general'',
      ch_topic = None, ch_projectPath = None, ch_createdBy = ''system'',
      ch_createdAt = 900, ch_isArchived = False, ch_archivedAt = None,
      ch_workspaceId = Some ''ws-1''\<rparr>"

definition random_channel :: Channel where
  "random_channel =
     \<lparr>ch_id = ''chan-random'', ch_name = ''#random'', ch_type = ''general'',
      ch_topic = None, ch_projectPath = None, ch_createdBy = ''system'',
      ch_createdAt = 900, ch_isArchived = False, ch_archivedAt = None,
      ch_workspaceId = Some ''ws-1''\<rparr>"

definition new_message_general :: ws_event where
  "new_message_general =
     \<lparr>ev_type = Some ''new_message'', ev_channel_id = Some (ch_id general_channel),
      ev_payload = ''hello''\<rparr>"

definition new_message_random :: ws_event where
  "new_message_random =
     \<lparr>ev_type = Some ''new_message'', ev_channel_id = Some (ch_id random_channel),
      ev_payload = ''hello''\<rparr>"

text \<open>An event of type \<^verbatim>\<open>new_message\<close> whose data carries no \<^verbatim>\<open>channel_id\<close>.\<close>

definition new_message_no_channel :: ws_event where
  "new_message_no_channel =
     \<lparr>ev_type = Some ''new_message'', ev_channel_id = None, ev_payload = ''hello''\<rparr>"

definition boss :: User where
  "boss =
     \<lparr>u_id = ''user-1'', u_name = ''boss'', u_type = ''human'', u_createdAt = 1000,
      u_displayName = Some ''the Boss'', u_about = None, u_agentInstructions = None,
      u_email = None, u_avatarUrl = None\<rparr>"

text \<open>
  A store with the channels \<^verbatim>\<open>#general\<close> and \<^verbatim>\<open>#random\<close>, a message in
  \<^verbatim>\<open>#random\<close> and a later message in \<^verbatim>\<open>#general\<close>.
\<close>

definition two_channels_db :: db where
  "two_channels_db =
     \<lparr>users = [boss], workspaces = [], workspaceMembers = [], agents = [], sessions = [],
      channels = [general_channel, random_channel],
      messages =
        [\<lparr>m_id = ''msg-1'', m_channelId = ''chan-random'', m_senderId = ''user-1'',
          m_content = ''only for random'', m_mentions = None, m_parentId = None,
          m_isPinned = False, m_pinnedAt = None, m_pinnedBy = None, m_editedAt = None,
          m_createdAt = 1000\<rparr>,
         \<lparr>m_id = ''msg-2'', m_channelId = ''chan-general'', m_senderId = ''user-1'',
          m_content = ''hello general'', m_mentions = None, m_parentId = None,
          m_isPinned = False, m_pinnedAt = None, m_pinnedBy = None, m_editedAt = None,
          m_createdAt = 2000\<rparr>],
      col_channels_workspace_id = True, col_agents_workspace_id = True,
      col_users_email = True, col_users_avatar_url = True\<rparr>"

text \<open>The same store before anybody was onboarded.\<close>

definition no_human_db :: db where
  "no_human_db = two_channels_db\<lparr>users := [], messages := []\<rparr>"


section \<open>Properties of the row lookup\<close>

lemma select_get_SomeD:
  "select_get p rows = Some r \<Longrightarrow> p r \<and> r \<in> set rows"
  by (induction rows) (auto simp: select_get_def split: if_splits)

lemma select_get_None_iff:
  "select_get p rows = None \<longleftrightarrow> \<not> list_ex p rows"
  by (induction rows) (auto simp: select_get_def)

lemma select_get_map:
  "(\<And>r. p (f r) = p r) \<Longrightarrow> select_get p (map f rows) = map_option f (select_get p rows)"
  by (induction rows) (auto simp: select_get_def)

lemma select_get_append_new:
  "\<not> list_ex p rows \<Longrightarrow> p r \<Longrightarrow> select_get p (rows @ [r]) = Some r"
  by (induction rows) (auto simp: select_get_def)


section \<open>Properties of the name generator\<close>















section \<open>Properties of the rate limiter\<close>

lemma clients_get_set_same: "clients_get (clients_set k v cs) k = Some v"
  by (induction cs) (auto simp: clients_get_def)

lemma clients_get_set_other: "k' \<noteq> k \<Longrightarrow> clients_get (clients_set k v cs) k' = clients_get cs k'"
  by (induction cs) (auto simp: clients_get_def)

text \<open>One call for a known client: the verdict, and the list stored afterwards.\<close>

lemma isRateLimited_known:
  assumes "wd_id ws = Some ident" and "clients_get (clients st) ident = Some client"
  shows "fst (isRateLimited now ws st)
           = (30 \<le> length (filter (\<lambda>ts. now - ts < 10000) (recentMessages client)))"
    and "clients_get (clients (snd (isRateLimited now ws st))) ident
           = Some (client\<lparr>recentMessages :=
                 (if 30 \<le> length (filter (\<lambda>ts. now - ts < 10000) (recentMessages client))
                  then filter (\<lambda>ts. now - ts < 10000) (recentMessages client)
                  else filter (\<lambda>ts. now - ts < 10000) (recentMessages client) @ [now])\<rparr>)"
  using assms
  by (simp_all add: isRateLimited_def Let_def RATE_LIMIT_MAX_def RATE_LIMIT_WINDOW_MS_def
      clients_get_set_same)

lemma filter_window_later:
  fixes now t :: int
  assumes "t \<le> now"
  shows "filter (\<lambda>ts. now - ts < 10000) (filter (\<lambda>ts. t - ts < 10000) xs)
           = filter (\<lambda>ts. now - ts < 10000) xs"
proof -
  have "\<And>x. (now - x < 10000 \<and> t - x < 10000) = (now - x < 10000)"
    using assms by auto
  then show ?thesis by (simp add: conj_commute)
qed

text \<open>
  Invariant of a run of frames at non-decreasing clock readings: the stored list never
  holds more than 30 entries, and at any later clock reading its entries inside the
  window are the accepted frames inside the window.
\<close>

lemma rateLimitedFrames_invariant:
  assumes "wd_id ws = Some ident"
      and "clients_get (clients st) ident = Some client"
      and "sorted frames"
      and "length (recentMessages client) \<le> 30"
  shows "\<exists>client'. clients_get (clients (snd (rateLimitedFrames ws frames st))) ident = Some client'
           \<and> length (recentMessages client') \<le> 30
           \<and> map fst (fst (rateLimitedFrames ws frames st)) = frames
           \<and> (\<forall>now. (\<forall>t\<in>set frames. t \<le> now) \<longrightarrow>
                 filter (\<lambda>ts. now - ts < 10000) (recentMessages client')
                 = filter (\<lambda>ts. now - ts < 10000)
                     (recentMessages client
                        @ map fst (filter (\<lambda>(t, rejected). \<not> rejected)
                                     (fst (rateLimitedFrames ws frames st)))))"
  using assms(2-4)
proof (induction frames arbitrary: st client)
  case Nil
  then show ?case by simp
next
  case (Cons t later)
  let ?pruned = "filter (\<lambda>ts. t - ts < 10000) (recentMessages client)"
  let ?rej = "30 \<le> length ?pruned"
  let ?rm1 = "if ?rej then ?pruned else ?pruned @ [t]"
  let ?c1 = "client\<lparr>recentMessages := ?rm1\<rparr>"
  let ?st1 = "snd (isRateLimited t ws st)"
  have v: "fst (isRateLimited t ws st) = ?rej"
    by (rule isRateLimited_known(1) [OF assms(1) Cons.prems(1)])
  have g1: "clients_get (clients ?st1) ident = Some ?c1"
    by (rule isRateLimited_known(2) [OF assms(1) Cons.prems(1)])
  have s: "sorted later" using Cons.prems(2) by simp
  have le: "\<forall>t'\<in>set later. t \<le> t'" using Cons.prems(2) by simp
  have "length ?pruned \<le> length (recentMessages client)" by simp
  then have "length ?pruned \<le> 30"
    using Cons.prems(3) by linarith
  then have l1: "length (recentMessages ?c1) \<le> 30"
    by (cases ?rej) simp_all
  from Cons.IH [OF g1 s l1] obtain client' where
    a: "clients_get (clients (snd (rateLimitedFrames ws later ?st1))) ident = Some client'"
    and b: "length (recentMessages client') \<le> 30"
    and m: "map fst (fst (rateLimitedFrames ws later ?st1)) = later"
    and c: "\<forall>now. (\<forall>t\<in>set later. t \<le> now) \<longrightarrow>
                 filter (\<lambda>ts. now - ts < 10000) (recentMessages client')
                 = filter (\<lambda>ts. now - ts < 10000)
                     (recentMessages ?c1
                        @ map fst (filter (\<lambda>(t, rejected). \<not> rejected)
                                     (fst (rateLimitedFrames ws later ?st1))))"
    by blast
  have unfold: "rateLimitedFrames ws (t # later) st
      = ((t, ?rej) # fst (rateLimitedFrames ws later ?st1), snd (rateLimitedFrames ws later ?st1))"
    using v by (simp add: split_beta Let_def)
  have d: "\<forall>now. (\<forall>t'\<in>set (t # later). t' \<le> now) \<longrightarrow>
                 filter (\<lambda>ts. now - ts < 10000) (recentMessages client')
                 = filter (\<lambda>ts. now - ts < 10000)
                     (recentMessages client
                        @ map fst (filter (\<lambda>(t, rejected). \<not> rejected)
                                     ((t, ?rej) # fst (rateLimitedFrames ws later ?st1))))"
  proof (intro allI impI)
    fix now assume h: "\<forall>t'\<in>set (t # later). t' \<le> now"
    then have tn: "t \<le> now" and ln: "\<forall>t'\<in>set later. t' \<le> now" by simp_all
    from c ln have e: "filter (\<lambda>ts. now - ts < 10000) (recentMessages client')
                 = filter (\<lambda>ts. now - ts < 10000)
                     (recentMessages ?c1
                        @ map fst (filter (\<lambda>(t, rejected). \<not> rejected)
                                     (fst (rateLimitedFrames ws later ?st1))))"
      by blast
    show "filter (\<lambda>ts. now - ts < 10000) (recentMessages client')
                 = filter (\<lambda>ts. now - ts < 10000)
                     (recentMessages client
                        @ map fst (filter (\<lambda>(t, rejected). \<not> rejected)
                                     ((t, ?rej) # fst (rateLimitedFrames ws later ?st1))))"
      unfolding e using filter_window_later [OF tn, of "recentMessages client"]
      by (cases ?rej) simp_all
  qed
  show ?case
    unfolding unfold using a b m d by simp
qed


lemma rateLimitedFrames_few_accepted:
  assumes "wd_id ws = Some ident"
      and "clients_get (clients st) ident = Some client"
      and "length (recentMessages client) + length frames \<le> 30"
  shows "\<forall>(t, rejected)\<in>set (fst (rateLimitedFrames ws frames st)). \<not> rejected"
  using assms(2,3)
proof (induction frames arbitrary: st client)
  case Nil
  then show ?case by simp
next
  case (Cons t later)
  let ?pruned = "filter (\<lambda>ts. t - ts < 10000) (recentMessages client)"
  let ?c1 = "client\<lparr>recentMessages := ?pruned @ [t]\<rparr>"
  let ?st1 = "snd (isRateLimited t ws st)"
  have pl: "length ?pruned \<le> length (recentMessages client)" by simp
  have "length (recentMessages client) \<le> 29"
    using Cons.prems(2) by simp
  then have lt: "\<not> 30 \<le> length ?pruned"
    using pl by linarith
  have v: "fst (isRateLimited t ws st) = False"
    using isRateLimited_known(1) [OF assms(1) Cons.prems(1), of t] lt by simp
  have g1: "clients_get (clients ?st1) ident = Some ?c1"
    using isRateLimited_known(2) [OF assms(1) Cons.prems(1), of t] lt by simp
  have "length (recentMessages client) + length later \<le> 29"
    using Cons.prems(2) by simp
  then have "length ?pruned + length later \<le> 29"
    using pl by linarith
  then have l1: "length (recentMessages ?c1) + length later \<le> 30"
    by simp
  have unfold: "fst (rateLimitedFrames ws (t # later) st)
      = (t, False) # fst (rateLimitedFrames ws later ?st1)"
    using v by (simp add: split_beta Let_def)
  show ?case
    unfolding unfold using Cons.IH [OF g1 l1] by simp
qed

lemma length_filter_accepted:
  "length (filter P (map fst (filter (\<lambda>(t, rejected). \<not> rejected) log)))
     = length (filter (\<lambda>(t, rejected). \<not> rejected \<and> P t) log)"
  by (induction log) auto

text \<open>
  Claim C5. For a freshly accepted client and frames arriving at non-decreasing clock
  readings, the frame arriving at \<open>now\<close> is rejected if and only if 30 earlier frames
  were accepted within the preceding 10 seconds (\<open>now - t < 10000\<close>); never more than 30
  accepted frames lie in one window. In particular, when 30 frames arrived within one
  window all of them were accepted and the 31st is rejected, and a frame is accepted when
  the window has slid past every accepted frame.
\<close>

theorem rate_limit_sliding_window:
  assumes "wd_id ws = Some ident"
      and "clients_get (clients st) ident = Some client"
      and "recentMessages client = []"
      and "sorted (earlier @ [now])"
  shows "let (log, st') = rateLimitedFrames ws earlier st;
             recent = filter (\<lambda>(t, rejected). \<not> rejected \<and> now - t < RATE_LIMIT_WINDOW_MS) log;
             rejected_now = fst (isRateLimited now ws st')
         in map fst log = earlier
          \<and> length recent \<le> RATE_LIMIT_MAX
          \<and> (rejected_now \<longleftrightarrow> length recent = RATE_LIMIT_MAX)
          \<and> (length earlier = 30 \<and> now - hd earlier < RATE_LIMIT_WINDOW_MS
                \<longrightarrow> (\<forall>(t, rejected)\<in>set log. \<not> rejected) \<and> rejected_now)
          \<and> ((\<forall>(t, rejected)\<in>set log. \<not> rejected \<longrightarrow> RATE_LIMIT_WINDOW_MS \<le> now - t)
                \<longrightarrow> \<not> rejected_now)"
proof -
  obtain log st' where r: "rateLimitedFrames ws earlier st = (log, st')"
    by (cases "rateLimitedFrames ws earlier st")
  then have fl: "fst (rateLimitedFrames ws earlier st) = log"
    and sl: "snd (rateLimitedFrames ws earlier st) = st'" by simp_all
  let ?log = "log"
  let ?st' = "st'"
  let ?recent = "filter (\<lambda>(t, rejected). \<not> rejected \<and> now - t < 10000) ?log"
  let ?rej = "fst (isRateLimited now ws ?st')"
  have s: "sorted earlier" and le: "\<forall>t\<in>set earlier. t \<le> now"
    using assms(4) by (simp_all add: sorted_append)
  have l0: "length (recentMessages client) \<le> 30" using assms(3) by simp
  from rateLimitedFrames_invariant [OF assms(1,2) s l0, unfolded fl sl] obtain client' where
    a: "clients_get (clients ?st') ident = Some client'"
    and b: "length (recentMessages client') \<le> 30"
    and m: "map fst ?log = earlier"
    and c: "\<forall>now. (\<forall>t\<in>set earlier. t \<le> now) \<longrightarrow>
                 filter (\<lambda>ts. now - ts < 10000) (recentMessages client')
                 = filter (\<lambda>ts. now - ts < 10000)
                     (recentMessages client
                        @ map fst (filter (\<lambda>(t, rejected). \<not> rejected) ?log))"
    by blast
  from c le have eq: "filter (\<lambda>ts. now - ts < 10000) (recentMessages client')
                 = filter (\<lambda>ts. now - ts < 10000)
                     (map fst (filter (\<lambda>(t, rejected). \<not> rejected) ?log))"
    using assms(3) by simp
  have len: "length (filter (\<lambda>ts. now - ts < 10000) (recentMessages client'))
      = length ?recent"
    unfolding eq by (rule length_filter_accepted)
  have "length (filter (\<lambda>ts. now - ts < 10000) (recentMessages client'))
      \<le> length (recentMessages client')" by simp
  then have bound: "length ?recent \<le> 30"
    using b len by linarith
  have verdict: "?rej = (30 \<le> length ?recent)"
    using isRateLimited_known(1) [OF assms(1) a, of now] len by simp
  have iff: "?rej \<longleftrightarrow> length ?recent = 30"
    using verdict bound by auto
  have full: "(\<forall>(t, rejected)\<in>set ?log. \<not> rejected) \<and> ?rej"
    if h: "length earlier = 30" "now - hd earlier < 10000"
  proof -
    have acc: "\<forall>(t, rejected)\<in>set ?log. \<not> rejected"
      using rateLimitedFrames_few_accepted [OF assms(1,2), of earlier] assms(3) h(1)
      unfolding fl by simp
    have ne: "earlier \<noteq> []" using h(1) by auto
    have "\<forall>t\<in>set earlier. hd earlier \<le> t"
      using s ne by (cases earlier) auto
    then have win: "\<forall>t\<in>set earlier. now - t < 10000"
      using h(2) by fastforce
    have "\<forall>x\<in>set ?log. (\<lambda>(t, rejected). \<not> rejected \<and> now - t < 10000) x"
    proof
      fix x assume x: "x \<in> set ?log"
      then have "fst x \<in> set earlier" using m by (metis image_eqI set_map)
      then show "(\<lambda>(t, rejected). \<not> rejected \<and> now - t < 10000) x"
        using acc win x by (cases x) auto
    qed
    then have "?recent = ?log" by (simp add: filter_id_conv)
    then have "length ?recent = length earlier"
      using m by (metis length_map)
    then show ?thesis using acc iff h(1) by simp
  qed
  have slid: "\<not> ?rej"
    if h: "\<forall>(t, rejected)\<in>set ?log. \<not> rejected \<longrightarrow> 10000 \<le> now - t"
  proof -
    have "\<forall>x\<in>set ?log. \<not> (\<lambda>(t, rejected). \<not> rejected \<and> now - t < 10000) x"
      using h by fastforce
    then have "?recent = []" by (simp add: filter_empty_conv)
    then show ?thesis using iff by simp
  qed
  show ?thesis
    unfolding r Let_def prod.case RATE_LIMIT_MAX_def RATE_LIMIT_WINDOW_MS_def
    using m bound iff full slid by blast
qed


theorem rate_limit_sliding_window_witness:
  "let ws = \<lparr>wd_id = Some 1, wd_workspaceId = ''W'', wd_userId = None\<rparr>;
       st = snd (acceptClient \<lparr>wd_id = None, wd_workspaceId = ''W'', wd_userId = None\<rparr>
                   \<lparr>nextId = 1, clients = []\<rparr>);
       earlier = [0, 100, 200, 300, 400, 500, 600, 700, 800, 900, 1000, 1100, 1200, 1300, 1400, 1500, 1600, 1700, 1800, 1900, 2000, 2100, 2200, 2300, 2400, 2500, 2600, 2700, 2800, 2900]
   in sorted (earlier @ [3000])
      \<and> clients_get (clients st) 1
          = Some \<lparr>workspaceId = ''W'', userId = None, subscribedChannels = {},
                  recentMessages = []\<rparr>
      \<and> (\<forall>(t, rejected)\<in>set (fst (rateLimitedFrames ws earlier st)). \<not> rejected)
      \<and> fst (isRateLimited 3000 ws (snd (rateLimitedFrames ws earlier st)))"
proof -
  let ?ws = "\<lparr>wd_id = Some 1, wd_workspaceId = ''W'', wd_userId = None\<rparr>"
  let ?st = "snd (acceptClient \<lparr>wd_id = None, wd_workspaceId = ''W'', wd_userId = None\<rparr>
                   \<lparr>nextId = 1, clients = []\<rparr>)"
  let ?client = "\<lparr>workspaceId = ''W'', userId = None, subscribedChannels = {},
                  recentMessages = []\<rparr>"
  let ?earlier = "[0, 100, 200, 300, 400, 500, 600, 700, 800, 900, 1000, 1100, 1200, 1300, 1400, 1500, 1600, 1700, 1800, 1900, 2000, 2100, 2200, 2300, 2400, 2500, 2600, 2700, 2800, 2900] :: int list"
  have h1: "wd_id ?ws = Some 1" by simp
  have h2: "clients_get (clients ?st) 1 = Some ?client"
    by (simp add: acceptClient_def clients_get_def)
  have h3: "recentMessages ?client = []" by simp
  have h4: "sorted (?earlier @ [3000])" by simp
  have h5: "length ?earlier = 30 \<and> 3000 - hd ?earlier < RATE_LIMIT_WINDOW_MS"
    by (simp add: RATE_LIMIT_WINDOW_MS_def)
  show ?thesis
    using rate_limit_sliding_window [OF h1 h2 h3 h4] h2 h4 h5
    unfolding Let_def split_beta by blast
qed


section \<open>The client map keeps distinct keys\<close>

lemma keys_clients_set:
  "map fst (clients_set k v cs) = (if k \<in> fst ` set cs then map fst cs else map fst cs @ [k])"
  by (induction cs) (auto simp: rev_image_eqI)

lemma key_set_clients_set: "fst ` set (clients_set k v cs) = insert k (fst ` set cs)"
proof -
  have "set (map fst (clients_set k v cs)) = insert k (set (map fst cs))"
    unfolding keys_clients_set by auto
  then show ?thesis by simp
qed

lemma distinct_clients_delete:
  "distinct (map fst cs) \<Longrightarrow> distinct (map fst (clients_delete k cs))"
  by (induction cs) (auto simp: clients_delete_def)

lemma key_set_clients_delete: "fst ` set (clients_delete k cs) \<subseteq> fst ` set cs"
  by (auto simp: clients_delete_def)

lemma distinct_fold_clients_delete:
  "distinct (map fst cs) \<Longrightarrow> distinct (map fst (fold clients_delete dead cs))"
  by (induction dead arbitrary: cs) (simp_all add: distinct_clients_delete)

lemma key_set_fold_clients_delete: "fst ` set (fold clients_delete dead cs) \<subseteq> fst ` set cs"
proof (induction dead arbitrary: cs)
  case Nil
  then show ?case by simp
next
  case (Cons k dead)
  have "fst ` set (fold clients_delete dead (clients_delete k cs))
      \<subseteq> fst ` set (clients_delete k cs)"
    by (rule Cons.IH)
  then show ?case
    using key_set_clients_delete [of k cs] by auto
qed

lemma clients_get_keys:
  "clients_get cs k = Some v \<Longrightarrow> k \<in> fst ` set cs"
  by (auto simp: clients_get_def dest: map_of_SomeD intro: rev_image_eqI)

lemma ws_wf_initial: "ws_wf ws_initial"
  by (simp add: ws_wf_def ws_initial_def)

lemma ws_wf_acceptClient:
  assumes "ws_wf st"
  shows "ws_wf (snd (acceptClient wsdata st))"
proof -
  have fresh: "nextId st \<notin> fst ` set (clients st)"
    using assms by (auto simp: ws_wf_def)
  show ?thesis
    using assms fresh
    by (auto simp: acceptClient_def Let_def ws_wf_def keys_clients_set key_set_clients_set)
qed

lemma ws_wf_update:
  assumes "ws_wf st" and "clients_get (clients st) k = Some v"
  shows "ws_wf (st\<lparr>clients := clients_set k v' (clients st)\<rparr>)"
  using assms(1) clients_get_keys [OF assms(2)]
  by (auto simp: ws_wf_def keys_clients_set key_set_clients_set)

lemma ws_wf_subscribe: "ws_wf st \<Longrightarrow> ws_wf (subscribe wsdata channelIds st)"
  by (auto simp: subscribe_def ws_wf_update split: option.splits)

lemma ws_wf_unsubscribe: "ws_wf st \<Longrightarrow> ws_wf (unsubscribe wsdata channelIds st)"
  by (auto simp: unsubscribe_def ws_wf_update split: option.splits)

lemma ws_wf_isRateLimited: "ws_wf st \<Longrightarrow> ws_wf (snd (isRateLimited now wsdata st))"
  by (auto simp: isRateLimited_def Let_def ws_wf_update split: option.splits)

lemma ws_wf_disconnectClient:
  assumes "ws_wf st"
  shows "ws_wf (disconnectClient wsdata st)"
proof (cases "wd_id wsdata")
  case None
  then show ?thesis using assms by (simp add: disconnectClient_def)
next
  case (Some k)
  have "\<forall>k'\<in>fst ` set (clients_delete k (clients st)). k' < nextId st"
    using assms key_set_clients_delete [of k "clients st"] unfolding ws_wf_def by blast
  moreover have "distinct (map fst (clients_delete k (clients st)))"
    using assms unfolding ws_wf_def by (intro distinct_clients_delete) simp
  ultimately show ?thesis
    unfolding ws_wf_def disconnectClient_def Some by simp
qed

lemma ws_wf_after_dead:
  assumes "ws_wf st"
  shows "ws_wf (st\<lparr>clients := fold clients_delete dead (clients st)\<rparr>)"
proof -
  have "\<forall>k\<in>fst ` set (fold clients_delete dead (clients st)). k < nextId st"
    using assms key_set_fold_clients_delete [of dead "clients st"] unfolding ws_wf_def by blast
  moreover have "distinct (map fst (fold clients_delete dead (clients st)))"
    using assms unfolding ws_wf_def by (intro distinct_fold_clients_delete) simp
  ultimately show ?thesis
    unfolding ws_wf_def by simp
qed

lemma ws_wf_broadcast: "ws_wf st \<Longrightarrow> ws_wf (snd (broadcast sendThrows event wsId st))"
  by (simp add: broadcast_def split_beta ws_wf_after_dead)

lemma ws_wf_broadcastToChannel:
  "ws_wf st \<Longrightarrow> ws_wf (snd (broadcastToChannel sendThrows channelId event excl st))"
  by (simp add: broadcastToChannel_def split_beta ws_wf_after_dead)

lemma ws_wf_distinct: "ws_wf st \<Longrightarrow> distinct (map fst (clients st))"
  by (simp add: ws_wf_def)

section \<open>Properties of the broadcast functions\<close>

lemma broadcast_loop_sent:
  "ident \<in> set (fst (broadcast_loop sendThrows event wsId cs))
     \<longleftrightarrow> (\<exists>client. (ident, client) \<in> set cs
            \<and> (wsId = None \<or> Some (workspaceId client) = wsId)
            \<and> \<not> (ev_type event = Some ''new_message'' \<and> subscribedChannels client \<noteq> {}
                  \<and> (case ev_channel_id event of None \<Rightarrow> False
                       | Some channelId \<Rightarrow>
                           channelId \<noteq> [] \<and> channelId \<notin> subscribedChannels client))
            \<and> \<not> sendThrows ident)"
  by (induction cs) (auto simp: split_beta Let_def split: if_splits)


lemma fst_broadcast:
  "fst (broadcast sendThrows event wsId st) = fst (broadcast_loop sendThrows event wsId (clients st))"
  by (simp add: broadcast_def split_beta)


lemma clients_get_iff:
  "distinct (map fst cs) \<Longrightarrow> clients_get cs ident = Some client \<longleftrightarrow> (ident, client) \<in> set cs"
  by (simp add: clients_get_def)





text \<open>
  Claim C4, as amended. For a \<^verbatim>\<open>new_message\<close> event broadcast with workspace \<open>W\<close>, a
  connected client of \<open>W\<close> (its send succeeds) receives the event iff its subscription
  set is empty, or the event carries no channel id or an empty one, or the channel id is
  in the set. So for an event that carries a non-empty channel id: every client with an
  empty set receives it, and a client with a non-empty set receives it iff the channel id
  is in the set.
\<close>

theorem broadcast_new_message_subscription:
  assumes "distinct (map fst (clients st))"
      and "clients_get (clients st) ident = Some client"
      and "workspaceId client = W"
      and "\<not> sendThrows ident"
      and "ev_type event = Some ''new_message''"
  shows "ident \<in> set (fst (broadcast sendThrows event (Some W) st))
           \<longleftrightarrow> (subscribedChannels client = {}
                \<or> (case ev_channel_id event of
                      None \<Rightarrow> True
                    | Some channelId \<Rightarrow> channelId = [] \<or> channelId \<in> subscribedChannels client))"
proof -
  have m: "\<And>c. (ident, c) \<in> set (clients st) \<longleftrightarrow> c = client"
    using assms(1,2) by (metis map_of_eq_Some_iff option.inject clients_get_def)
  show ?thesis
    unfolding fst_broadcast broadcast_loop_sent m using assms(3-5)
    by (auto split: option.splits)
qed




theorem broadcast_new_message_subscription_witness:
  "1 \<in> set (fst (broadcast sendNeverThrows new_message_general (Some ''ws-1'') two_workspaces_ws))
   \<and> 1 \<notin> set (fst (broadcast sendNeverThrows new_message_random (Some ''ws-1'')
                      two_workspaces_ws))"
proof -
  let ?client = "\<lparr>workspaceId = ''ws-1'', userId = Some ''user-1'',
                  subscribedChannels = {''chan-general''}, recentMessages = []\<rparr>"
  have h1: "distinct (map fst (clients two_workspaces_ws))"
    by (simp add: two_workspaces_ws_def)
  have h2: "clients_get (clients two_workspaces_ws) 1 = Some ?client"
    by (simp add: two_workspaces_ws_def clients_get_def)
  have h3: "workspaceId ?client = ''ws-1''" by simp
  have h4: "\<not> sendNeverThrows 1" by (simp add: sendNeverThrows_def)
  have g: "ev_type new_message_general = Some ''new_message''"
    by (simp add: new_message_general_def)
  have r: "ev_type new_message_random = Some ''new_message''"
    by (simp add: new_message_random_def)
  show ?thesis
    using broadcast_new_message_subscription
        [where sendThrows = sendNeverThrows and ident = 1, OF h1 h2 h3 h4 g]
      broadcast_new_message_subscription
        [where sendThrows = sendNeverThrows and ident = 1, OF h1 h2 h3 h4 r]
    by (simp add: new_message_general_def new_message_random_def general_channel_def
        random_channel_def)
qed

text \<open>
  Claim C4 as stated fails for an event without channel id: client 1 has a non-empty
  subscription set, the event's channel id is not in it, and the event is sent to it.
\<close>

theorem broadcast_no_channel_id_reaches_subscriber:
  "fst (broadcast sendNeverThrows new_message_no_channel (Some ''ws-1'') two_workspaces_ws) = [1]
   \<and> clients_get (clients two_workspaces_ws) 1
       = Some \<lparr>workspaceId = ''ws-1'', userId = Some ''user-1'',
               subscribedChannels = {''chan-general''}, recentMessages = []\<rparr>
   \<and> ev_type new_message_no_channel = Some ''new_message''
   \<and> ev_channel_id new_message_no_channel \<notin> Some ` {''chan-general''}"
  by (simp add: broadcast_def sendNeverThrows_def new_message_no_channel_def
      two_workspaces_ws_def clients_get_def)

section \<open>Properties of the liveness sweep\<close>

text \<open>
  What \<open>computeGhost\<close> decides for an agent that is not the system agent and has no
  complete invocation credentials: it reads the session row that started first,
  whatever its \<^verbatim>\<open>is_active\<close> flag.
\<close>

lemma computeGhost_without_credentials:
  assumes "a_agentType agent \<noteq> ''system''"
      and "\<not> (truthy (a_serverUrl agent) \<and> truthy (a_providerSessionId agent))"
  shows "fst (computeGhost fetchSessions killSucceeds d agent cache)
           \<longleftrightarrow> (case firstSessionByStartedAt d (a_id agent) of
                  None \<Rightarrow> True
                | Some s \<Rightarrow> \<not> killSucceeds (s_pid s))"
  using assms by (auto simp: computeGhost_def isPidAlive_def split: option.splits)

text \<open>
  Claim C1 (fails on the code). The claim classifies such an agent as a ghost iff it has
  no active session or the pid of its most recent session is not alive. In the example
  store the agent has an active, most recent session whose process is running, so the
  claim (and the comment in the source, ``check for active session with live PID'') says
  it is no ghost; \<open>computeGhost\<close> takes the oldest row, an ended session of a dead
  process, and reports a ghost.
\<close>

theorem computeGhost_reads_oldest_session:
  "fst (computeGhost fetchSessions ghost_example_kill ghost_example_db ghost_example_agent
          Map.empty) = True
   \<and> refreshGhostCache fetchSessions ghost_example_kill ghost_example_db ''agent-1'' = Some True
   \<and> ghostBySpec ghost_example_kill ghost_example_db ghost_example_agent = False
   \<and> list_ex (\<lambda>s. s_agentId s = ''agent-1'' \<and> s_isActive s \<and> ghost_example_kill (s_pid s))
        (sessions ghost_example_db)"
  by (simp add: computeGhost_def refreshGhostCache_def ghostBySpec_def mostRecentSession_def
      firstSessionByStartedAt_def isPidAlive_def truthy_def
      ghost_example_agent_def ghost_example_db_def ghost_example_kill_def)

section \<open>Properties of the message endpoints\<close>

text \<open>
  Without a cursor, or with a cursor that names no message, the answer holds rows of the
  requested channel only.
\<close>

lemma set_orderByDesc: "set (orderByDesc key rows) = set rows"
  by (simp add: orderByDesc_def)

lemma set_sql_limit: "set (sql_limit n rows) \<subseteq> set rows"
  by (auto simp: sql_limit_def dest: in_set_takeD)

lemma getMessages_without_cursor_scoped:
  assumes "\<not> truthy beforeParam \<or> select_get (\<lambda>m. Some (m_id m) = beforeParam) (messages d) = None"
      and "getMessages channelId limitParam beforeParam d = Inr rows"
  shows "\<forall>r\<in>set rows. r_channel_id r = channelId"
proof -
  let ?scoped = "filter (\<lambda>(m, u). m_channelId m = channelId) (messagesJoinUsers d)"
  let ?out = "sql_limit (limitOf limitParam) (orderByDesc (\<lambda>(m, u). m_createdAt m) ?scoped)"
  have q: "qb_rows (qb_where \<lparr>q_from = messagesJoinUsers d, q_where = None\<rparr>
                     (\<lambda>(m, u). m_channelId m = channelId)) = ?scoped"
    by (simp add: qb_rows_def qb_where_def)
  have rows: "rows = map toMessageResponse ?out"
  proof (cases "select_get (\<lambda>c. ch_id c = channelId) (channels d)")
    case None
    then show ?thesis using assms(2) by (simp add: getMessages_def Let_def)
  next
    case (Some channel)
    show ?thesis
      using assms Some unfolding getMessages_def Let_def q
      by (auto split: option.splits simp: q)
  qed
  show ?thesis
  proof
    fix r assume "r \<in> set rows"
    then obtain row where r: "r = toMessageResponse row" and "row \<in> set ?out"
      unfolding rows by auto
    then have "row \<in> set (orderByDesc (\<lambda>(m, u). m_createdAt m) ?scoped)"
      using set_sql_limit [of "limitOf limitParam"] by (rule_tac subsetD)
    then have "row \<in> set ?scoped"
      unfolding set_orderByDesc .
    then have "m_channelId (fst row) = channelId"
      by (simp add: split_beta)
    then show "r_channel_id r = channelId"
      unfolding r by (simp add: toMessageResponse_def split_beta)
  qed
qed

text \<open>With a cursor that names a message, the condition on the channel is replaced.\<close>

lemma getMessages_with_cursor:
  assumes "select_get (\<lambda>c. ch_id c = channelId) (channels d) = Some channel"
      and "truthy beforeParam"
      and "select_get (\<lambda>m. Some (m_id m) = beforeParam) (messages d) = Some beforeMsg"
  shows "getMessages channelId limitParam beforeParam d
           = Inr (map toMessageResponse
                   (sql_limit (limitOf limitParam)
                      (orderByDesc (\<lambda>(m, u). m_createdAt m)
                         (filter (\<lambda>(m, u). m_createdAt m < m_createdAt beforeMsg)
                            (messagesJoinUsers d)))))"
  using assms by (simp add: getMessages_def Let_def qb_where_def qb_rows_def)

text \<open>
  Claim C2 (fails on the code). \<^verbatim>\<open>GET /api/channels/chan-general/messages?before=msg-2\<close>
  on the example store answers with the message of \<^verbatim>\<open>#random\<close>: the second
  \<^verbatim>\<open>where\<close> of the handler replaces the condition on the channel.
\<close>

theorem getMessages_before_leaks_other_channel:
  "getMessages ''chan-general'' None (Some ''msg-2'') two_channels_db
     = Inr [\<lparr>r_id = ''msg-1'', r_channel_id = ''chan-random'', r_sender_id = ''user-1'',
             r_sender_name = ''the Boss'', r_sender_type = ''human'',
             r_content = ''only for random'', r_mentions = None, r_parent_id = None,
             r_created_at = 1000\<rparr>]"
  by (simp add: getMessages_def limitOf_def select_get_def truthy_def qb_where_def qb_rows_def
      messagesJoinUsers_def orderByDesc_def sql_limit_def toMessageResponse_def
      two_channels_db_def general_channel_def random_channel_def boss_def)

text \<open>
  Claim C9, as amended. For a POST on an existing channel whose body passes the schema:
  if no user of type \<^verbatim>\<open>human\<close> exists the handler answers 400 with detail
  \<^verbatim>\<open>No user onboarded\<close> and leaves the store unchanged; otherwise (the new id being
  fresh) it answers 201 and stores one message whose sender is the first human user. The
  handler reads no authentication context, so this holds for every principal. A body
  that fails the schema is answered 400 with the message of the validation error, before
  the channel and the human are looked up.
\<close>

theorem postMessage_sender_is_human:
  assumes "select_get (\<lambda>c. ch_id c = channelId) (channels d) = Some channel"
  shows "(select_get (\<lambda>u. u_type u = ''human'') (users d) = None
            \<longrightarrow> postMessage msgId now channelId (Inr data) d
                  = (Inl (400, ''No user onboarded''), d))
       \<and> (\<forall>human. select_get (\<lambda>u. u_type u = ''human'') (users d) = Some human
                   \<and> \<not> list_ex (\<lambda>m. m_id m = msgId) (messages d)
            \<longrightarrow> postMessage msgId now channelId (Inr data) d
                  = (Inr (201,
                          \<lparr>r_id = msgId, r_channel_id = channelId, r_sender_id = u_id human,
                           r_sender_name =
                             (case u_displayName human of Some n \<Rightarrow> n | None \<Rightarrow> u_name human),
                           r_sender_type = ''human'', r_content = mc_content data,
                           r_mentions = mc_mentions data, r_parent_id = None,
                           r_created_at = now\<rparr>),
                     d\<lparr>messages := messages d @
                          [\<lparr>m_id = msgId, m_channelId = channelId, m_senderId = u_id human,
                            m_content = mc_content data, m_mentions = mc_mentions data,
                            m_parentId = None, m_isPinned = False, m_pinnedAt = None,
                            m_pinnedBy = None, m_editedAt = None, m_createdAt = now\<rparr>]\<rparr>))
       \<and> postMessage msgId now channelId (Inl message) d = (Inl (400, message), d)"
proof -
  have ch: "list_ex (\<lambda>c. ch_id c = channelId) (channels d)"
    using select_get_SomeD [OF assms] by (auto simp: list_ex_iff)
  have none: "select_get (\<lambda>u. u_type u = ''human'') (users d) = None
      \<Longrightarrow> postMessage msgId now channelId (Inr data) d = (Inl (400, ''No user onboarded''), d)"
    using assms by (simp add: postMessage_def)
  have some: "postMessage msgId now channelId (Inr data) d
                  = (Inr (201,
                          \<lparr>r_id = msgId, r_channel_id = channelId, r_sender_id = u_id human,
                           r_sender_name =
                             (case u_displayName human of Some n \<Rightarrow> n | None \<Rightarrow> u_name human),
                           r_sender_type = ''human'', r_content = mc_content data,
                           r_mentions = mc_mentions data, r_parent_id = None,
                           r_created_at = now\<rparr>),
                     d\<lparr>messages := messages d @
                          [\<lparr>m_id = msgId, m_channelId = channelId, m_senderId = u_id human,
                            m_content = mc_content data, m_mentions = mc_mentions data,
                            m_parentId = None, m_isPinned = False, m_pinnedAt = None,
                            m_pinnedBy = None, m_editedAt = None, m_createdAt = now\<rparr>]\<rparr>)"
    if h: "select_get (\<lambda>u. u_type u = ''human'') (users d) = Some human"
      and fresh: "\<not> list_ex (\<lambda>m. m_id m = msgId) (messages d)" for human
  proof -
    have u: "list_ex (\<lambda>u. u_id u = u_id human) (users d)"
      using select_get_SomeD [OF h] by (auto simp: list_ex_iff)
    show ?thesis
      using assms h fresh ch u by (simp add: postMessage_def insertMessage_def)
  qed
  have bad: "postMessage msgId now channelId (Inl message) d = (Inl (400, message), d)"
    by (simp add: postMessage_def)
  show ?thesis
    using none some bad by blast
qed

theorem postMessage_sender_is_human_witness:
  "postMessage ''msg-9'' 3000 ''chan-general'' (Inr \<lparr>mc_content = ''hi'', mc_mentions = None\<rparr>)
     no_human_db = (Inl (400, ''No user onboarded''), no_human_db)
   \<and> map_sum id (map_prod id r_sender_id)
       (fst (postMessage ''msg-9'' 3000 ''chan-general''
               (Inr \<lparr>mc_content = ''hi'', mc_mentions = None\<rparr>) two_channels_db))
       = Inr (201, ''user-1'')
   \<and> map m_senderId
       (messages (snd (postMessage ''msg-9'' 3000 ''chan-general''
                         (Inr \<lparr>mc_content = ''hi'', mc_mentions = None\<rparr>) two_channels_db)))
       = [''user-1'', ''user-1'', ''user-1'']"
proof -
  have c1: "select_get (\<lambda>c. ch_id c = ''chan-general'') (channels no_human_db)
      = Some general_channel"
    by (simp add: no_human_db_def two_channels_db_def select_get_def general_channel_def)
  have c2: "select_get (\<lambda>c. ch_id c = ''chan-general'') (channels two_channels_db)
      = Some general_channel"
    by (simp add: two_channels_db_def select_get_def general_channel_def)
  have n: "select_get (\<lambda>u. u_type u = ''human'') (users no_human_db) = None"
    by (simp add: no_human_db_def select_get_def)
  have h: "select_get (\<lambda>u. u_type u = ''human'') (users two_channels_db) = Some boss"
    by (simp add: two_channels_db_def select_get_def boss_def)
  have f: "\<not> list_ex (\<lambda>m. m_id m = ''msg-9'') (messages two_channels_db)"
    by (simp add: two_channels_db_def)
  have a: "postMessage ''msg-9'' 3000 ''chan-general''
             (Inr \<lparr>mc_content = ''hi'', mc_mentions = None\<rparr>) no_human_db
           = (Inl (400, ''No user onboarded''), no_human_db)"
    using postMessage_sender_is_human [OF c1] n by blast
  show ?thesis
    using a postMessage_sender_is_human [OF c2, of "''msg-9''" 3000
        "\<lparr>mc_content = ''hi'', mc_mentions = None\<rparr>"] h f
    by (simp add: boss_def two_channels_db_def)
qed

text \<open>
  Claim C9 as stated fails for a body that fails the schema: on an existing channel and
  without a human user the detail of the answer is the validation message.
\<close>

theorem postMessage_invalid_body_detail:
  "postMessage ''msg-9'' 3000 ''chan-general'' (Inl ''Required'') no_human_db
     = (Inl (400, ''Required''), no_human_db)
   \<and> select_get (\<lambda>c. ch_id c = ''chan-general'') (channels no_human_db) = Some general_channel
   \<and> select_get (\<lambda>u. u_type u = ''human'') (users no_human_db) = None
   \<and> ''Required'' \<noteq> ''No user onboarded''"
  by (simp add: postMessage_def no_human_db_def two_channels_db_def select_get_def
      general_channel_def)

section \<open>Properties of onboarding\<close>

lemma humanCount_zero_iff:
  "humanCount d = 0 \<longleftrightarrow> select_get (\<lambda>u. u_type u = ''human'') (users d) = None"
  by (simp add: humanCount_def select_get_None_iff list_ex_iff filter_empty_conv)

lemma users_postCreatorWelcome:
  "users (postCreatorWelcome msgId now displayName about d) = users d"
  by (auto simp: postCreatorWelcome_def insertMessage_def split: option.splits if_splits)

lemma updateUserProfile_types:
  "map u_type (users (updateUserProfile ident data d)) = map u_type (users d)"
  "map u_id (users (updateUserProfile ident data d)) = map u_id (users d)"
  by (simp_all add: updateUserProfile_def comp_def if_distrib [of u_type] if_distrib [of u_id])

lemma count_by_type:
  "length (filter (\<lambda>u. u_type u = t) us) = length (filter (\<lambda>x. x = t) (map u_type us))"
  by (induction us) auto

lemma humanCount_map_u_type:
  assumes "map u_type (users d') = map u_type (users d)"
  shows "humanCount d' = humanCount d"
  unfolding humanCount_def count_by_type assms ..

text \<open>Re-onboarding: the branch taken when a human user exists.\<close>

lemma onboard_existing:
  assumes "select_get (\<lambda>u. u_type u = ''human'') (users d) = Some existing"
  shows "\<exists>row. select_get (\<lambda>u. u_id u = u_id existing) (users d) = Some row
           \<and> onboard newUserId msgId now (Inr data) d
               = (Inr (201, userToResponse
                              (row\<lparr>u_name := uo_name data,
                                   u_displayName := uo_display_name data,
                                   u_about := uo_about data,
                                   u_agentInstructions := uo_agent_instructions data\<rparr>)),
                  updateUserProfile (u_id existing) data d)"
proof -
  let ?f = "\<lambda>u. if u_id u = u_id existing
                 then u\<lparr>u_name := uo_name data, u_displayName := uo_display_name data,
                        u_about := uo_about data,
                        u_agentInstructions := uo_agent_instructions data\<rparr>
                 else u"
  have "list_ex (\<lambda>u. u_id u = u_id existing) (users d)"
    using select_get_SomeD [OF assms] by (auto simp: list_ex_iff)
  then obtain row where row: "select_get (\<lambda>u. u_id u = u_id existing) (users d) = Some row"
    using select_get_None_iff [of "\<lambda>u. u_id u = u_id existing" "users d"] by auto
  have rid: "u_id row = u_id existing"
    using select_get_SomeD [OF row] by simp
  have "select_get (\<lambda>u. u_id u = u_id existing) (map ?f (users d))
      = map_option ?f (select_get (\<lambda>u. u_id u = u_id existing) (users d))"
    by (rule select_get_map) simp
  then have upd: "select_get (\<lambda>u. u_id u = u_id existing)
      (users (updateUserProfile (u_id existing) data d)) = Some (?f row)"
    using row by (simp add: updateUserProfile_def)
  have "onboard newUserId msgId now (Inr data) d
      = (Inr (201, userToResponse (?f row)), updateUserProfile (u_id existing) data d)"
    using assms upd by (simp add: onboard_def Let_def)
  then show ?thesis
    using row rid by simp
qed

text \<open>First onboarding: the branch taken when no human user exists.\<close>

lemma onboard_new:
  assumes "select_get (\<lambda>u. u_type u = ''human'') (users d) = None"
      and "\<not> list_ex (\<lambda>u. u_id u = newUserId) (users d)"
  shows "\<exists>d'. onboard newUserId msgId now (Inr data) d
               = (Inr (201, userToResponse
                    \<lparr>u_id = newUserId, u_name = uo_name data, u_type = ''human'',
                     u_createdAt = now, u_displayName = uo_display_name data,
                     u_about = uo_about data,
                     u_agentInstructions = uo_agent_instructions data,
                     u_email = None, u_avatarUrl = None\<rparr>), d')
           \<and> users d' = users d @
                 [\<lparr>u_id = newUserId, u_name = uo_name data, u_type = ''human'',
                   u_createdAt = now, u_displayName = uo_display_name data,
                   u_about = uo_about data,
                   u_agentInstructions = uo_agent_instructions data,
                   u_email = None, u_avatarUrl = None\<rparr>]"
proof -
  let ?u = "\<lparr>u_id = newUserId, u_name = uo_name data, u_type = ''human'',
             u_createdAt = now, u_displayName = uo_display_name data,
             u_about = uo_about data, u_agentInstructions = uo_agent_instructions data,
             u_email = None, u_avatarUrl = None\<rparr>"
  let ?d1 = "d\<lparr>users := users d @ [?u]\<rparr>"
  let ?d2 = "postCreatorWelcome msgId now
               (case uo_display_name data of Some n \<Rightarrow> n | None \<Rightarrow> uo_name data)
               (uo_about data) ?d1"
  have ins: "insertUser ?u d = Some ?d1"
    using assms(2) by (simp add: insertUser_def)
  have us: "users ?d2 = users d @ [?u]"
    by (simp add: users_postCreatorWelcome)
  have found: "select_get (\<lambda>u. u_id u = newUserId) (users ?d2) = Some ?u"
    unfolding us using assms(2) by (intro select_get_append_new) simp_all
  have "onboard newUserId msgId now (Inr data) d = (Inr (201, userToResponse ?u), ?d2)"
    using assms(1) ins found by (simp add: onboard_def Let_def)
  then show ?thesis
    using us by blast
qed

text \<open>Whatever the request, the user table afterwards is one of three.\<close>

lemma onboard_users:
  "users (snd (onboard newUserId msgId now parsed d)) = users d
   \<or> (\<exists>existing data. select_get (\<lambda>u. u_type u = ''human'') (users d) = Some existing
         \<and> snd (onboard newUserId msgId now parsed d) = updateUserProfile (u_id existing) data d)
   \<or> (\<exists>u. select_get (\<lambda>u. u_type u = ''human'') (users d) = None \<and> u_type u = ''human''
         \<and> users (snd (onboard newUserId msgId now parsed d)) = users d @ [u])"
proof (cases parsed)
  case (Inl message)
  then show ?thesis by (simp add: onboard_def)
next
  case (Inr data)
  show ?thesis
  proof (cases "select_get (\<lambda>u. u_type u = ''human'') (users d)")
    case (Some existing)
    from onboard_existing [OF Some, of newUserId msgId now data]
    have "snd (onboard newUserId msgId now parsed d) = updateUserProfile (u_id existing) data d"
      unfolding Inr by auto
    then show ?thesis using Some by blast
  next
    case None
    show ?thesis
    proof (cases "list_ex (\<lambda>u. u_id u = newUserId) (users d)")
      case True
      then show ?thesis
        using None Inr by (simp add: onboard_def insertUser_def)
    next
      case False
      from onboard_new [OF None False, of msgId now data]
      show ?thesis unfolding Inr using None by auto
    qed
  qed
qed

text \<open>
  Claim C10, as amended. Whatever the request, the handler creates a user of type
  \<^verbatim>\<open>human\<close> only when none exists: when one exists the number of human users and the
  ids of all rows stay as they are, and a store with at most one human user keeps at most
  one. When a human user exists and the body passes the schema, the handler updates that
  row in place (its id unchanged) and answers 201 with it. A body that fails the schema
  is answered 400 and nothing is updated.
\<close>

theorem onboard_single_human:
  "let d' = snd (onboard newUserId msgId now parsed d)
   in (humanCount d \<noteq> 0
         \<longrightarrow> humanCount d' = humanCount d \<and> map u_id (users d') = map u_id (users d))
    \<and> (humanCount d \<le> 1 \<longrightarrow> humanCount d' \<le> 1)
    \<and> (\<forall>data existing.
          parsed = Inr data
          \<and> select_get (\<lambda>u. u_type u = ''human'') (users d) = Some existing
          \<longrightarrow> d' = updateUserProfile (u_id existing) data d
              \<and> (\<exists>resp. fst (onboard newUserId msgId now parsed d) = Inr (201, resp)
                    \<and> ur_id resp = u_id existing \<and> ur_name resp = uo_name data
                    \<and> ur_display_name resp = uo_display_name data))
    \<and> (\<forall>message. parsed = Inl message
          \<longrightarrow> onboard newUserId msgId now parsed d = (Inl (400, message), d))"
proof -
  let ?d' = "snd (onboard newUserId msgId now parsed d)"
  note cases = onboard_users [of newUserId msgId now parsed d]
  have keep: "humanCount ?d' = humanCount d \<and> map u_id (users ?d') = map u_id (users d)"
    if nz: "humanCount d \<noteq> 0"
  proof -
    have nn: "select_get (\<lambda>u. u_type u = ''human'') (users d) \<noteq> None"
      using nz by (simp add: humanCount_zero_iff)
    from cases show ?thesis
    proof (elim disjE exE conjE)
      assume "users ?d' = users d"
      then show ?thesis by (simp add: humanCount_def)
    next
      fix existing data
      assume "?d' = updateUserProfile (u_id existing) data d"
      then show ?thesis
        using updateUserProfile_types [of "u_id existing" data d]
          humanCount_map_u_type [of ?d' d] by simp
    next
      assume "select_get (\<lambda>u. u_type u = ''human'') (users d) = None"
      with nn show ?thesis by simp
    qed
  qed
  have le: "humanCount ?d' \<le> 1" if "humanCount d \<le> 1"
  proof (cases "humanCount d = 0")
    case False
    then show ?thesis using keep that by simp
  next
    case True
    then have none: "select_get (\<lambda>u. u_type u = ''human'') (users d) = None"
      by (simp add: humanCount_zero_iff)
    from cases show ?thesis
    proof (elim disjE exE conjE)
      assume "users ?d' = users d"
      then show ?thesis using True by (simp add: humanCount_def)
    next
      fix existing data
      assume "select_get (\<lambda>u. u_type u = ''human'') (users d) = Some existing"
      with none show ?thesis by simp
    next
      fix u
      assume "u_type u = ''human''" and "users ?d' = users d @ [u]"
      then show ?thesis using True by (simp add: humanCount_def)
    qed
  qed
  have upd: "?d' = updateUserProfile (u_id existing) data d
              \<and> (\<exists>resp. fst (onboard newUserId msgId now parsed d) = Inr (201, resp)
                    \<and> ur_id resp = u_id existing \<and> ur_name resp = uo_name data
                    \<and> ur_display_name resp = uo_display_name data)"
    if "parsed = Inr data"
      and h: "select_get (\<lambda>u. u_type u = ''human'') (users d) = Some existing"
    for data existing
  proof -
    from onboard_existing [OF h, of newUserId msgId now data] obtain row where
      row: "select_get (\<lambda>u. u_id u = u_id existing) (users d) = Some row"
      and r: "onboard newUserId msgId now (Inr data) d
               = (Inr (201, userToResponse
                              (row\<lparr>u_name := uo_name data,
                                   u_displayName := uo_display_name data,
                                   u_about := uo_about data,
                                   u_agentInstructions := uo_agent_instructions data\<rparr>)),
                  updateUserProfile (u_id existing) data d)"
      by blast
    have "u_id row = u_id existing"
      using select_get_SomeD [OF row] by simp
    then show ?thesis
      unfolding \<open>parsed = Inr data\<close> r by (simp add: userToResponse_def)
  qed
  have bad: "onboard newUserId msgId now parsed d = (Inl (400, message), d)"
    if "parsed = Inl message" for message
    using that by (simp add: onboard_def)
  show ?thesis
    unfolding Let_def using keep le upd bad by blast
qed

theorem onboard_single_human_witness:
  "humanCount two_channels_db = 1
   \<and> map_sum id (map_prod id (\<lambda>r. (ur_id r, ur_name r)))
       (fst (onboard ''user-9'' ''msg-9'' 3000
               (Inr \<lparr>uo_name = ''chief'', uo_display_name = None, uo_about = None,
                     uo_agent_instructions = None\<rparr>) two_channels_db))
       = Inr (201, ''user-1'', ''chief'')
   \<and> humanCount (snd (onboard ''user-9'' ''msg-9'' 3000
               (Inr \<lparr>uo_name = ''chief'', uo_display_name = None, uo_about = None,
                     uo_agent_instructions = None\<rparr>) two_channels_db)) = 1
   \<and> map u_id (users (snd (onboard ''user-9'' ''msg-9'' 3000
               (Inr \<lparr>uo_name = ''chief'', uo_display_name = None, uo_about = None,
                     uo_agent_instructions = None\<rparr>) two_channels_db))) = [''user-1'']"
proof -
  let ?data = "\<lparr>uo_name = ''chief'', uo_display_name = None, uo_about = None,
                uo_agent_instructions = None\<rparr>"
  have c: "humanCount two_channels_db = 1"
    by (simp add: humanCount_def two_channels_db_def boss_def)
  have h: "select_get (\<lambda>u. u_type u = ''human'') (users two_channels_db) = Some boss"
    by (simp add: two_channels_db_def select_get_def boss_def)
  have i: "map u_id (users two_channels_db) = [''user-1'']"
    by (simp add: two_channels_db_def boss_def)
  have b: "u_id boss = ''user-1''" by (simp add: boss_def)
  note t = onboard_single_human [of "''user-9''" "''msg-9''" 3000 "Inr ?data" two_channels_db,
      unfolded Let_def]
  have k: "humanCount (snd (onboard ''user-9'' ''msg-9'' 3000 (Inr ?data) two_channels_db)) = 1"
    and ids: "map u_id (users (snd (onboard ''user-9'' ''msg-9'' 3000 (Inr ?data)
                two_channels_db))) = [''user-1'']"
    using t c i by simp_all
  from t h obtain resp where
    "fst (onboard ''user-9'' ''msg-9'' 3000 (Inr ?data) two_channels_db) = Inr (201, resp)"
    "ur_id resp = u_id boss" "ur_name resp = uo_name ?data"
    by blast
  then show ?thesis
    using c k ids b by simp
qed

text \<open>
  Claim C10 as stated fails for a body that fails the schema: a human user exists, the
  answer is 400 instead of 201 and the row is not updated.
\<close>

theorem onboard_invalid_body_no_update:
  "onboard ''user-9'' ''msg-9'' 3000 (Inl ''Required'') two_channels_db
     = (Inl (400, ''Required''), two_channels_db)
   \<and> select_get (\<lambda>u. u_type u = ''human'') (users two_channels_db) = Some boss"
  by (simp add: onboard_def two_channels_db_def select_get_def boss_def)

section \<open>Properties of the migrations\<close>

lemma map_backfill_channels_id:
  "\<not> list_ex (\<lambda>c. ch_workspaceId c = None) cs \<Longrightarrow>
   map (\<lambda>c. if ch_workspaceId c = None then c\<lparr>ch_workspaceId := Some w\<rparr> else c) cs = cs"
  by (induction cs) auto

lemma map_backfill_agents_id:
  "\<not> list_ex (\<lambda>a. a_workspaceId a = None) as \<Longrightarrow>
   map (\<lambda>a. if a_workspaceId a = None then a\<lparr>a_workspaceId := Some w\<rparr> else a) as = as"
  by (induction as) auto

lemma backfilled_channels:
  "\<not> list_ex (\<lambda>c. ch_workspaceId c = None)
       (map (\<lambda>c. if ch_workspaceId c = None then c\<lparr>ch_workspaceId := Some w\<rparr> else c) cs)"
  by (induction cs) auto

lemma backfilled_agents:
  "\<not> list_ex (\<lambda>a. a_workspaceId a = None)
       (map (\<lambda>a. if a_workspaceId a = None then a\<lparr>a_workspaceId := Some w\<rparr> else a) as)"
  by (induction as) auto

lemma insertOrIgnoreWorkspace_again:
  "insertOrIgnoreWorkspace (defaultWorkspaceRow now')
     (insertOrIgnoreWorkspace (defaultWorkspaceRow now) d)
   = insertOrIgnoreWorkspace (defaultWorkspaceRow now) d"
  by (simp add: insertOrIgnoreWorkspace_def defaultWorkspaceRow_def)

text \<open>The result of a successful \<open>ensureDefaultWorkspace\<close>.\<close>

lemma ensureDefaultWorkspace_Inr:
  assumes "ensureDefaultWorkspace now d = Inr d'"
  shows "d' = (insertOrIgnoreWorkspace (defaultWorkspaceRow now) d)
           \<lparr>channels := map (\<lambda>c. if ch_workspaceId c = None
                                  then c\<lparr>ch_workspaceId := Some DEFAULT_WORKSPACE_ID\<rparr>
                                  else c) (channels d),
            agents := map (\<lambda>a. if a_workspaceId a = None
                                then a\<lparr>a_workspaceId := Some DEFAULT_WORKSPACE_ID\<rparr>
                                else a) (agents d)\<rparr>"
    and "col_channels_workspace_id d" and "col_agents_workspace_id d"
  using assms
  by (auto simp: ensureDefaultWorkspace_def Let_def insertOrIgnoreWorkspace_def
      split: if_splits)

lemma ensureDefaultWorkspace_idempotent:
  assumes "ensureDefaultWorkspace now d = Inr d'"
  shows "ensureDefaultWorkspace now' d' = Inr d'"
proof -
  let ?d1 = "insertOrIgnoreWorkspace (defaultWorkspaceRow now) d"
  note r = ensureDefaultWorkspace_Inr [OF assms]
  have w: "workspaces d' = workspaces ?d1"
    and c: "\<not> list_ex (\<lambda>c. ch_workspaceId c = None) (channels d')"
    and a: "\<not> list_ex (\<lambda>a. a_workspaceId a = None) (agents d')"
    and f: "col_channels_workspace_id d'" "col_agents_workspace_id d'"
    using r backfilled_channels backfilled_agents
    by (simp_all add: insertOrIgnoreWorkspace_def)
  have "list_ex (\<lambda>w'. w_id w' = w_id (defaultWorkspaceRow now')
                      \<or> w_name w' = w_name (defaultWorkspaceRow now')
                      \<or> w_slug w' = w_slug (defaultWorkspaceRow now')) (workspaces d')"
    unfolding w by (simp add: insertOrIgnoreWorkspace_def defaultWorkspaceRow_def)
  then have ins: "insertOrIgnoreWorkspace (defaultWorkspaceRow now') d' = d'"
    by (simp add: insertOrIgnoreWorkspace_def)
  show ?thesis
    unfolding ensureDefaultWorkspace_def Let_def ins
    using c a f by (simp add: map_backfill_channels_id map_backfill_agents_id)
qed

lemma migrations_frame:
  "workspaceMembers (migration3 (migration2 (migration1 d))) = workspaceMembers d"
  "workspaces (migration3 (migration2 (migration1 d))) = workspaces d"
  "map u_id (users (migration3 (migration2 (migration1 d)))) = map u_id (users d)"
  "map u_type (users (migration3 (migration2 (migration1 d)))) = map u_type (users d)"
  "map ch_id (channels (migration3 (migration2 (migration1 d)))) = map ch_id (channels d)"
  "map a_id (agents (migration3 (migration2 (migration1 d)))) = map a_id (agents d)"
  "col_users_email (migration3 (migration2 (migration1 d)))"
  "col_users_avatar_url (migration3 (migration2 (migration1 d)))"
  by (simp_all add: migration1_def migration2_def migration3_def Let_def comp_def
      addColumn_users_email_def addColumn_users_avatar_url_def
      addColumn_agents_workspace_id_def addColumn_channels_workspace_id_def)

lemma migrations_null_columns:
  "\<not> col_channels_workspace_id d \<Longrightarrow>
     \<forall>c\<in>set (channels (migration3 (migration2 (migration1 d)))). ch_workspaceId c = None"
  "\<not> col_agents_workspace_id d \<Longrightarrow>
     \<forall>a\<in>set (agents (migration3 (migration2 (migration1 d)))). a_workspaceId a = None"
  by (simp_all add: migration1_def migration2_def migration3_def Let_def
      addColumn_users_email_def addColumn_users_avatar_url_def
      addColumn_agents_workspace_id_def addColumn_channels_workspace_id_def)

lemma migrations_done:
  assumes "col_channels_workspace_id d" and "col_agents_workspace_id d"
      and "col_users_email d" and "col_users_avatar_url d"
  shows "migration3 (migration2 (migration1 d)) = d"
  using assms by (simp add: migration1_def migration2_def migration3_def)

lemma ensureDefaultWorkspace_frame:
  assumes "ensureDefaultWorkspace now d = Inr d'"
  shows "col_channels_workspace_id d'" and "col_agents_workspace_id d'"
    and "col_users_email d' = col_users_email d"
    and "col_users_avatar_url d' = col_users_avatar_url d"
    and "workspaceMembers d' = workspaceMembers d"
    and "users d' = users d"
    and "map ch_id (channels d') = map ch_id (channels d)"
    and "map a_id (agents d') = map a_id (agents d)"
    and "\<not> list_ex (\<lambda>c. ch_workspaceId c = None) (channels d')"
    and "\<not> list_ex (\<lambda>a. a_workspaceId a = None) (agents d')"
    and "workspaces d' = workspaces (insertOrIgnoreWorkspace (defaultWorkspaceRow now) d)"
proof -
  note r = ensureDefaultWorkspace_Inr [OF assms]
  show "col_channels_workspace_id d'" and "col_agents_workspace_id d'"
    using r(2,3) by (subst r(1), simp add: insertOrIgnoreWorkspace_def)+
  show "col_users_email d' = col_users_email d"
    and "col_users_avatar_url d' = col_users_avatar_url d"
    and "workspaceMembers d' = workspaceMembers d"
    and "users d' = users d"
    and "workspaces d' = workspaces (insertOrIgnoreWorkspace (defaultWorkspaceRow now) d)"
    by (subst r(1), simp add: insertOrIgnoreWorkspace_def)+
  have "map ch_id (map (\<lambda>c. if ch_workspaceId c = None
                              then c\<lparr>ch_workspaceId := Some DEFAULT_WORKSPACE_ID\<rparr>
                              else c) cs) = map ch_id cs" for cs
    by (induction cs) auto
  then show "map ch_id (channels d') = map ch_id (channels d)"
    by (subst r(1)) (simp add: insertOrIgnoreWorkspace_def)
  have "map a_id (map (\<lambda>a. if a_workspaceId a = None
                             then a\<lparr>a_workspaceId := Some DEFAULT_WORKSPACE_ID\<rparr>
                             else a) as) = map a_id as" for as
    by (induction as) auto
  then show "map a_id (agents d') = map a_id (agents d)"
    by (subst r(1)) (simp add: insertOrIgnoreWorkspace_def)
  show "\<not> list_ex (\<lambda>c. ch_workspaceId c = None) (channels d')"
    by (subst r(1)) (simp add: backfilled_channels)
  show "\<not> list_ex (\<lambda>a. a_workspaceId a = None) (agents d')"
    by (subst r(1)) (simp add: backfilled_agents)
qed

text \<open>Whenever the migrations succeed, running them again changes nothing.\<close>

lemma runMigrations_idempotent:
  assumes "runMigrations now d = Inr d'"
  shows "runMigrations now' d' = Inr d'"
proof -
  let ?d3 = "migration3 (migration2 (migration1 d))"
  have e: "ensureDefaultWorkspace now ?d3 = Inr d'"
    using assms by (simp add: runMigrations_def Let_def)
  note f = ensureDefaultWorkspace_frame [OF e]
  have "migration3 (migration2 (migration1 d')) = d'"
    using f(1-4) migrations_frame(7,8) [of d] by (intro migrations_done) simp_all
  then have "runMigrations now' d' = ensureDefaultWorkspace now' d'"
    by (simp add: runMigrations_def Let_def)
  then show ?thesis
    using ensureDefaultWorkspace_idempotent [OF e] by simp
qed

lemma migrations_columns:
  "col_channels_workspace_id (migration3 (migration2 (migration1 d)))"
  "col_agents_workspace_id (migration3 (migration2 (migration1 d)))"
  by (simp_all add: migration1_def migration2_def migration3_def Let_def
      addColumn_users_email_def addColumn_users_avatar_url_def
      addColumn_agents_workspace_id_def addColumn_channels_workspace_id_def)

lemma ensureDefaultWorkspace_fresh:
  assumes "workspaces d = []" and "col_channels_workspace_id d" and "col_agents_workspace_id d"
  shows "\<exists>d'. ensureDefaultWorkspace now d = Inr d'
           \<and> workspaces d' = [defaultWorkspaceRow now]"
  using assms
  by (simp add: ensureDefaultWorkspace_def Let_def insertOrIgnoreWorkspace_def
      defaultWorkspaceRow_def)

text \<open>
  Claim C6, as amended. After the migrations run against a store that predates
  workspaces (the workspace table empty, no \<^verbatim>\<open>workspace_id\<close> column on channels and
  agents), the default workspace with the all-zero id exists, every channel row and
  every agent row that was there has \<^verbatim>\<open>workspace_id\<close> set to it, the table of workspace
  members is as it was, and running the migrations again, at any time, leaves the store
  unchanged.
\<close>

theorem runMigrations_backfills_default_workspace:
  assumes "workspaces d = []"
      and "\<not> col_channels_workspace_id d" and "\<not> col_agents_workspace_id d"
  shows "\<exists>d'. runMigrations now d = Inr d'
       \<and> list_ex (\<lambda>w. w_id w = DEFAULT_WORKSPACE_ID) (workspaces d')
       \<and> map ch_id (channels d') = map ch_id (channels d)
       \<and> (\<forall>c\<in>set (channels d'). ch_workspaceId c = Some DEFAULT_WORKSPACE_ID)
       \<and> map a_id (agents d') = map a_id (agents d)
       \<and> (\<forall>a\<in>set (agents d'). a_workspaceId a = Some DEFAULT_WORKSPACE_ID)
       \<and> workspaceMembers d' = workspaceMembers d
       \<and> map u_id (users d') = map u_id (users d)
       \<and> runMigrations now' d' = Inr d'"
proof -
  let ?d3 = "migration3 (migration2 (migration1 d))"
  have w3: "workspaces ?d3 = []"
    using assms(1) by (simp add: migrations_frame)
  from ensureDefaultWorkspace_fresh [OF w3 migrations_columns] obtain d' where
    e: "ensureDefaultWorkspace now ?d3 = Inr d'"
    and w: "workspaces d' = [defaultWorkspaceRow now]"
    by blast
  have run: "runMigrations now d = Inr d'"
    using e by (simp add: runMigrations_def Let_def)
  note f = ensureDefaultWorkspace_frame [OF e]
  note r = ensureDefaultWorkspace_Inr(1) [OF e]
  have ex: "list_ex (\<lambda>w. w_id w = DEFAULT_WORKSPACE_ID) (workspaces d')"
    unfolding w by (simp add: defaultWorkspaceRow_def)
  have ch: "\<forall>c\<in>set (channels d'). ch_workspaceId c = Some DEFAULT_WORKSPACE_ID"
    using migrations_null_columns(1) [OF assms(2)]
    by (subst r) (simp add: insertOrIgnoreWorkspace_def)
  have ag: "\<forall>a\<in>set (agents d'). a_workspaceId a = Some DEFAULT_WORKSPACE_ID"
    using migrations_null_columns(2) [OF assms(3)]
    by (subst r) (simp add: insertOrIgnoreWorkspace_def)
  have "map ch_id (channels d') = map ch_id (channels d)"
    and "map a_id (agents d') = map a_id (agents d)"
    and "workspaceMembers d' = workspaceMembers d"
    and "map u_id (users d') = map u_id (users d)"
    using f(5-8) by (simp_all add: migrations_frame)
  then show ?thesis
    using run ex ch ag runMigrations_idempotent [OF run, of now'] by blast
qed

theorem runMigrations_backfills_default_workspace_witness:
  "workspaces legacy_example_db = []
   \<and> \<not> col_channels_workspace_id legacy_example_db
   \<and> \<not> col_agents_workspace_id legacy_example_db
   \<and> (\<exists>d'. runMigrations 5000 legacy_example_db = Inr d'
          \<and> map ch_id (channels d') = [''chan-general'']
          \<and> (\<forall>c\<in>set (channels d'). ch_workspaceId c = Some DEFAULT_WORKSPACE_ID)
          \<and> map a_id (agents d') = [''agent-1'']
          \<and> (\<forall>a\<in>set (agents d'). a_workspaceId a = Some DEFAULT_WORKSPACE_ID)
          \<and> runMigrations 6000 d' = Inr d')"
proof -
  have h1: "workspaces legacy_example_db = []"
    and h2: "\<not> col_channels_workspace_id legacy_example_db"
    and h3: "\<not> col_agents_workspace_id legacy_example_db"
    by (simp_all add: legacy_example_db_def)
  have c: "map ch_id (channels legacy_example_db) = [''chan-general'']"
    and a: "map a_id (agents legacy_example_db) = [''agent-1'']"
    by (simp_all add: legacy_example_db_def)
  from runMigrations_backfills_default_workspace [OF h1 h2 h3, of 5000 6000]
  obtain d' where d: "runMigrations 5000 legacy_example_db = Inr d'"
    "map ch_id (channels d') = map ch_id (channels legacy_example_db)"
    "\<forall>c\<in>set (channels d'). ch_workspaceId c = Some DEFAULT_WORKSPACE_ID"
    "map a_id (agents d') = map a_id (agents legacy_example_db)"
    "\<forall>a\<in>set (agents d'). a_workspaceId a = Some DEFAULT_WORKSPACE_ID"
    "runMigrations 6000 d' = Inr d'"
    by blast
  have "\<exists>d'. runMigrations 5000 legacy_example_db = Inr d'
          \<and> map ch_id (channels d') = [''chan-general'']
          \<and> (\<forall>c\<in>set (channels d'). ch_workspaceId c = Some DEFAULT_WORKSPACE_ID)
          \<and> map a_id (agents d') = [''agent-1'']
          \<and> (\<forall>a\<in>set (agents d'). a_workspaceId a = Some DEFAULT_WORKSPACE_ID)
          \<and> runMigrations 6000 d' = Inr d'"
    using d unfolding c a by (intro exI [of _ d']) simp
  then show ?thesis
    using h1 h2 h3 by simp
qed

text \<open>
  Claim C6 as stated fails in its third part: the migrations add no membership, so the
  human of the example store is not a member of the default workspace afterwards.
\<close>

theorem runMigrations_adds_no_member:
  "(case runMigrations 5000 legacy_example_db of
      Inl e \<Rightarrow> False
    | Inr d' \<Rightarrow>
        workspaceMembers d' = []
        \<and> list_ex (\<lambda>u. u_type u = ''human'' \<and> u_id u = ''user-1'') (users d')
        \<and> \<not> list_ex (\<lambda>m. wm_userId m = ''user-1'' \<and> wm_role m = ''admin''
                            \<and> wm_workspaceId m = DEFAULT_WORKSPACE_ID)
                (workspaceMembers d'))"
  by (simp add: runMigrations_def Let_def migration1_def migration2_def migration3_def
      addColumn_users_email_def addColumn_users_avatar_url_def
      addColumn_agents_workspace_id_def addColumn_channels_workspace_id_def
      ensureDefaultWorkspace_def insertOrIgnoreWorkspace_def defaultWorkspaceRow_def
      legacy_example_db_def)

section \<open>Properties of the search endpoint\<close>








end
